theory Spec2Isabelle
  imports Main "HOL-Library.AList"
begin

unbundle bit_operations_syntax

section \<open>Strings, errors and dictionaries\<close>

text \<open>
  A Python \<^verbatim>\<open>str\<close> is a sequence of Unicode code points, and \<^verbatim>\<open>len\<close>, indexing and
  \<^verbatim>\<open>ord\<close> work on code points. The model is the list of the code points, as natural
  numbers; \<open>str\<close> turns an ASCII literal into such a list.
\<close>

type_synonym pystr = "nat list"

definition str :: "string \<Rightarrow> pystr" where
  "str s = map of_char s"

text \<open>
  Every exception of the module is a \<^verbatim>\<open>ValueError\<close> that differs by its message. The
  model has one constructor for each \<^verbatim>\<open>raise\<close> of the source; the one for an unsupported
  specification carries the message, which names the supported specifications. The next
  four are the exceptions of the Python runtime that the source could meet in a dictionary
  subscript, a string subscript, \<^verbatim>\<open>int(s, 16)\<close> and a division. \<open>Unmodelled\<close> is not an
  exception: it marks an input of \<^verbatim>\<open>int\<close>, \<^verbatim>\<open>float\<close> or the formatting of a float that the
  model of these runtime functions does not cover.
\<close>

datatype error =
    UnsupportedSpecification pystr
  | NameNotFound
  | HexNotFound
  | InvalidFormat
  | InvalidLength
  | MissingHashPrefix
  | InvalidHexDigits
  | EmptyInput
  | TransparentNotAllowed
  | KeyError
  | IndexError
  | IntValueError
  | ZeroDivisionError
  | Unmodelled

text \<open>
  A dictionary is an association list in insertion order. \<^verbatim>\<open>d.get(k)\<close> is \<open>map_of\<close>, and
  \<^verbatim>\<open>d[k] = v\<close> is \<open>AList.update\<close>: it overwrites the value of a key that is present and
  appends a new key at the end.
\<close>

type_synonym ('k, 'v) dict = "('k \<times> 'v) list"

definition dict_get :: "('k, 'v) dict \<Rightarrow> 'k \<Rightarrow> 'v option" where
  "dict_get d k = map_of d k"

definition dict_set :: "('k, 'v) dict \<Rightarrow> 'k \<Rightarrow> 'v \<Rightarrow> ('k, 'v) dict" where
  "dict_set d k v = AList.update k v d"

text \<open>\<^verbatim>\<open>{value: key for key, value in d.items()}\<close>\<close>

definition reversedict :: "('k, 'v) dict \<Rightarrow> ('v, 'k) dict" where
  "reversedict d = fold (\<lambda>(key, val) acc. dict_set acc val key) d []"

section \<open>Specifications and color tables\<close>

definition COLOR_HEXA :: pystr where "COLOR_HEXA = str ''color_hexa''"
definition HTML4 :: pystr where "HTML4 = str ''html4''"
definition CSS2 :: pystr where "CSS2 = str ''css2''"
definition CSS21 :: pystr where "CSS21 = str ''css21''"
definition CSS3 :: pystr where "CSS3 = str ''css3''"

definition SUPPORTED_SPECIFICATIONS :: "pystr list" where
  "SUPPORTED_SPECIFICATIONS = [HTML4, CSS2, CSS21, CSS3]"

text \<open>\<^verbatim>\<open>sep.join(xs)\<close>\<close>

fun join :: "pystr \<Rightarrow> pystr list \<Rightarrow> pystr" where
  "join sep [] = []"
| "join sep [x] = x"
| "join sep (x # y # ys) = x @ sep @ join sep (y # ys)"

text \<open>
  \<^verbatim>\<open>SPECIFICATION_ERROR_TEMPLATE.format(spec=spec)\<close>: the template is built once with the
  supported specifications joined by commas, and \<^verbatim>\<open>{spec}\<close> is its first field.
\<close>

definition SPECIFICATION_ERROR_TEMPLATE :: "pystr \<Rightarrow> pystr" where
  "SPECIFICATION_ERROR_TEMPLATE spec =
     spec @ str '' is not a supported specification for color name lookups; supported specifications are: ''
       @ join (str '','') SUPPORTED_SPECIFICATIONS @ str ''.''"

definition HTML4_NAMES_TO_HEX :: "(pystr \<times> pystr) list" where
  "HTML4_NAMES_TO_HEX = [
    (str ''aqua'', str ''#00ffff''),
    (str ''black'', str ''#000000''),
    (str ''blue'', str ''#0000ff''),
    (str ''fuchsia'', str ''#ff00ff''),
    (str ''green'', str ''#008000''),
    (str ''gray'', str ''#808080''),
    (str ''lime'', str ''#00ff00''),
    (str ''maroon'', str ''#800000''),
    (str ''navy'', str ''#000080''),
    (str ''olive'', str ''#808000''),
    (str ''purple'', str ''#800080''),
    (str ''red'', str ''#ff0000''),
    (str ''silver'', str ''#c0c0c0''),
    (str ''teal'', str ''#008080''),
    (str ''white'', str ''#ffffff''),
    (str ''yellow'', str ''#ffff00'')]"

definition CSS2_NAMES_TO_HEX :: "(pystr \<times> pystr) list" where
  "CSS2_NAMES_TO_HEX = HTML4_NAMES_TO_HEX"

text \<open>\<^verbatim>\<open>{"orange": "#ffa500", **HTML4_NAMES_TO_HEX}\<close>\<close>

definition CSS21_NAMES_TO_HEX :: "(pystr \<times> pystr) list" where
  "CSS21_NAMES_TO_HEX =
     fold (\<lambda>(k, v) acc. dict_set acc k v) HTML4_NAMES_TO_HEX [(str ''orange'', str ''#ffa500'')]"

definition CSS3_NAMES_TO_HEX :: "(pystr \<times> pystr) list" where
  "CSS3_NAMES_TO_HEX = [
    (str ''aliceblue'', str ''#f0f8ff''),
    (str ''antiquewhite'', str ''#faebd7''),
    (str ''aqua'', str ''#00ffff''),
    (str ''aquamarine'', str ''#7fffd4''),
    (str ''azure'', str ''#f0ffff''),
    (str ''beige'', str ''#f5f5dc''),
    (str ''bisque'', str ''#ffe4c4''),
    (str ''black'', str ''#000000''),
    (str ''blanchedalmond'', str ''#ffebcd''),
    (str ''blue'', str ''#0000ff''),
    (str ''blueviolet'', str ''#8a2be2''),
    (str ''brown'', str ''#a52a2a''),
    (str ''burlywood'', str ''#deb887''),
    (str ''cadetblue'', str ''#5f9ea0''),
    (str ''chartreuse'', str ''#7fff00''),
    (str ''chocolate'', str ''#d2691e''),
    (str ''coral'', str ''#ff7f50''),
    (str ''cornflowerblue'', str ''#6495ed''),
    (str ''cornsilk'', str ''#fff8dc''),
    (str ''crimson'', str ''#dc143c''),
    (str ''cyan'', str ''#00ffff''),
    (str ''darkblue'', str ''#00008b''),
    (str ''darkcyan'', str ''#008b8b''),
    (str ''darkgoldenrod'', str ''#b8860b''),
    (str ''darkgray'', str ''#a9a9a9''),
    (str ''darkgrey'', str ''#a9a9a9''),
    (str ''darkgreen'', str ''#006400''),
    (str ''darkkhaki'', str ''#bdb76b''),
    (str ''darkmagenta'', str ''#8b008b''),
    (str ''darkolivegreen'', str ''#556b2f''),
    (str ''darkorange'', str ''#ff8c00''),
    (str ''darkorchid'', str ''#9932cc''),
    (str ''darkred'', str ''#8b0000''),
    (str ''darksalmon'', str ''#e9967a''),
    (str ''darkseagreen'', str ''#8fbc8f''),
    (str ''darkslateblue'', str ''#483d8b''),
    (str ''darkslategray'', str ''#2f4f4f''),
    (str ''darkslategrey'', str ''#2f4f4f''),
    (str ''darkturquoise'', str ''#00ced1''),
    (str ''darkviolet'', str ''#9400d3''),
    (str ''deeppink'', str ''#ff1493''),
    (str ''deepskyblue'', str ''#00bfff''),
    (str ''dimgray'', str ''#696969''),
    (str ''dimgrey'', str ''#696969''),
    (str ''dodgerblue'', str ''#1e90ff''),
    (str ''firebrick'', str ''#b22222''),
    (str ''floralwhite'', str ''#fffaf0''),
    (str ''forestgreen'', str ''#228b22''),
    (str ''fuchsia'', str ''#ff00ff''),
    (str ''gainsboro'', str ''#dcdcdc''),
    (str ''ghostwhite'', str ''#f8f8ff''),
    (str ''gold'', str ''#ffd700''),
    (str ''goldenrod'', str ''#daa520''),
    (str ''gray'', str ''#808080''),
    (str ''grey'', str ''#808080''),
    (str ''green'', str ''#008000''),
    (str ''greenyellow'', str ''#adff2f''),
    (str ''honeydew'', str ''#f0fff0''),
    (str ''hotpink'', str ''#ff69b4''),
    (str ''indianred'', str ''#cd5c5c''),
    (str ''indigo'', str ''#4b0082''),
    (str ''ivory'', str ''#fffff0''),
    (str ''khaki'', str ''#f0e68c''),
    (str ''lavender'', str ''#e6e6fa''),
    (str ''lavenderblush'', str ''#fff0f5''),
    (str ''lawngreen'', str ''#7cfc00''),
    (str ''lemonchiffon'', str ''#fffacd''),
    (str ''lightblue'', str ''#add8e6''),
    (str ''lightcoral'', str ''#f08080''),
    (str ''lightcyan'', str ''#e0ffff''),
    (str ''lightgoldenrodyellow'', str ''#fafad2''),
    (str ''lightgray'', str ''#d3d3d3''),
    (str ''lightgrey'', str ''#d3d3d3''),
    (str ''lightgreen'', str ''#90ee90''),
    (str ''lightpink'', str ''#ffb6c1''),
    (str ''lightsalmon'', str ''#ffa07a''),
    (str ''lightseagreen'', str ''#20b2aa''),
    (str ''lightskyblue'', str ''#87cefa''),
    (str ''lightslategray'', str ''#778899''),
    (str ''lightslategrey'', str ''#778899''),
    (str ''lightsteelblue'', str ''#b0c4de''),
    (str ''lightyellow'', str ''#ffffe0''),
    (str ''lime'', str ''#00ff00''),
    (str ''limegreen'', str ''#32cd32''),
    (str ''linen'', str ''#faf0e6''),
    (str ''magenta'', str ''#ff00ff''),
    (str ''maroon'', str ''#800000''),
    (str ''mediumaquamarine'', str ''#66cdaa''),
    (str ''mediumblue'', str ''#0000cd''),
    (str ''mediumorchid'', str ''#ba55d3''),
    (str ''mediumpurple'', str ''#9370db''),
    (str ''mediumseagreen'', str ''#3cb371''),
    (str ''mediumslateblue'', str ''#7b68ee''),
    (str ''mediumspringgreen'', str ''#00fa9a''),
    (str ''mediumturquoise'', str ''#48d1cc''),
    (str ''mediumvioletred'', str ''#c71585''),
    (str ''midnightblue'', str ''#191970''),
    (str ''mintcream'', str ''#f5fffa''),
    (str ''mistyrose'', str ''#ffe4e1''),
    (str ''moccasin'', str ''#ffe4b5''),
    (str ''navajowhite'', str ''#ffdead''),
    (str ''navy'', str ''#000080''),
    (str ''oldlace'', str ''#fdf5e6''),
    (str ''olive'', str ''#808000''),
    (str ''olivedrab'', str ''#6b8e23''),
    (str ''orange'', str ''#ffa500''),
    (str ''orangered'', str ''#ff4500''),
    (str ''orchid'', str ''#da70d6''),
    (str ''palegoldenrod'', str ''#eee8aa''),
    (str ''palegreen'', str ''#98fb98''),
    (str ''paleturquoise'', str ''#afeeee''),
    (str ''palevioletred'', str ''#db7093''),
    (str ''papayawhip'', str ''#ffefd5''),
    (str ''peachpuff'', str ''#ffdab9''),
    (str ''peru'', str ''#cd853f''),
    (str ''pink'', str ''#ffc0cb''),
    (str ''plum'', str ''#dda0dd''),
    (str ''powderblue'', str ''#b0e0e6''),
    (str ''purple'', str ''#800080''),
    (str ''red'', str ''#ff0000''),
    (str ''rosybrown'', str ''#bc8f8f''),
    (str ''royalblue'', str ''#4169e1''),
    (str ''saddlebrown'', str ''#8b4513''),
    (str ''salmon'', str ''#fa8072''),
    (str ''sandybrown'', str ''#f4a460''),
    (str ''seagreen'', str ''#2e8b57''),
    (str ''seashell'', str ''#fff5ee''),
    (str ''sienna'', str ''#a0522d''),
    (str ''silver'', str ''#c0c0c0''),
    (str ''skyblue'', str ''#87ceeb''),
    (str ''slateblue'', str ''#6a5acd''),
    (str ''slategray'', str ''#708090''),
    (str ''slategrey'', str ''#708090''),
    (str ''snow'', str ''#fffafa''),
    (str ''springgreen'', str ''#00ff7f''),
    (str ''steelblue'', str ''#4682b4''),
    (str ''tan'', str ''#d2b48c''),
    (str ''teal'', str ''#008080''),
    (str ''thistle'', str ''#d8bfd8''),
    (str ''tomato'', str ''#ff6347''),
    (str ''turquoise'', str ''#40e0d0''),
    (str ''violet'', str ''#ee82ee''),
    (str ''wheat'', str ''#f5deb3''),
    (str ''white'', str ''#ffffff''),
    (str ''whitesmoke'', str ''#f5f5f5''),
    (str ''yellow'', str ''#ffff00''),
    (str ''yellowgreen'', str ''#9acd32'')]"
definition COLOR_HEXA_NAMES_TO_HEX :: "(pystr \<times> pystr) list" where
  "COLOR_HEXA_NAMES_TO_HEX = [
    (str ''Air Force Blue (Usaf)'', str ''#00308f''),
    (str ''Air Superiority Blue'', str ''#72a0c1''),
    (str ''Alabama Crimson'', str ''#a32638''),
    (str ''Alice Blue'', str ''#f0f8ff''),
    (str ''Alizarin Crimson'', str ''#e32636''),
    (str ''Alloy Orange'', str ''#c46210''),
    (str ''Almond'', str ''#efdecd''),
    (str ''Amaranth'', str ''#e52b50''),
    (str ''Amber'', str ''#ffbf00''),
    (str ''Amber (Sae/Ece)'', str ''#ff7e00''),
    (str ''American Rose'', str ''#ff033e''),
    (str ''Amethyst'', str ''#9966cc''),
    (str ''Android Green'', str ''#a4c639''),
    (str ''Anti-Flash White'', str ''#f2f3f4''),
    (str ''Antique Brass'', str ''#cd9575''),
    (str ''Antique Fuchsia'', str ''#915c83''),
    (str ''Antique Ruby'', str ''#841b2d''),
    (str ''Antique White'', str ''#faebd7''),
    (str ''Ao (English)'', str ''#008000''),
    (str ''Apple Green'', str ''#8db600''),
    (str ''Apricot'', str ''#fbceb1''),
    (str ''Aqua'', str ''#00ffff''),
    (str ''Aquamarine'', str ''#7fffd4''),
    (str ''Army Green'', str ''#4b5320''),
    (str ''Arsenic'', str ''#3b444b''),
    (str ''Arylide Yellow'', str ''#e9d66b''),
    (str ''Ash Grey'', str ''#b2beb5''),
    (str ''Asparagus'', str ''#87a96b''),
    (str ''Atomic Tangerine'', str ''#ff9966''),
    (str ''Auburn'', str ''#a52a2a''),
    (str ''Aureolin'', str ''#fdee00''),
    (str ''Aurometalsaurus'', str ''#6e7f80''),
    (str ''Avocado'', str ''#568203''),
    (str ''Azure'', str ''#007fff''),
    (str ''Azure Mist/Web'', str ''#f0ffff''),
    (str ''Baby Blue'', str ''#89cff0''),
    (str ''Baby Blue Eyes'', str ''#a1caf1''),
    (str ''Baby Pink'', str ''#f4c2c2''),
    (str ''Ball Blue'', str ''#21abcd''),
    (str ''Banana Mania'', str ''#fae7b5''),
    (str ''Banana Yellow'', str ''#ffe135''),
    (str ''Barn Red'', str ''#7c0a02''),
    (str ''Battleship Grey'', str ''#848482''),
    (str ''Bazaar'', str ''#98777b''),
    (str ''Beau Blue'', str ''#bcd4e6''),
    (str ''Beaver'', str ''#9f8170''),
    (str ''Beige'', str ''#f5f5dc''),
    (str ''Big Dip ORuby'', str ''#9c2542''),
    (str ''Bisque'', str ''#ffe4c4''),
    (str ''Bistre'', str ''#3d2b1f''),
    (str ''Bittersweet'', str ''#fe6f5e''),
    (str ''Bittersweet Shimmer'', str ''#bf4f51''),
    (str ''Black'', str ''#000000''),
    (str ''Black Bean'', str ''#3d0c02''),
    (str ''Black Leather Jacket'', str ''#253529''),
    (str ''Black Olive'', str ''#3b3c36''),
    (str ''Blanched Almond'', str ''#ffebcd''),
    (str ''Blast-Off Bronze'', str ''#a57164''),
    (str ''Bleu De France'', str ''#318ce7''),
    (str ''Blizzard Blue'', str ''#ace5ee''),
    (str ''Blond'', str ''#faf0be''),
    (str ''Blue'', str ''#0000ff''),
    (str ''Blue Bell'', str ''#a2a2d0''),
    (str ''Blue (Crayola)'', str ''#1f75fe''),
    (str ''Blue Gray'', str ''#6699cc''),
    (str ''Blue-Green'', str ''#0d98ba''),
    (str ''Blue (Munsell)'', str ''#0093af''),
    (str ''Blue (Ncs)'', str ''#0087bd''),
    (str ''Blue (Pigment)'', str ''#333399''),
    (str ''Blue (Ryb)'', str ''#0247fe''),
    (str ''Blue Sapphire'', str ''#126180''),
    (str ''Blue-Violet'', str ''#8a2be2''),
    (str ''Blush'', str ''#de5d83''),
    (str ''Bole'', str ''#79443b''),
    (str ''Bondi Blue'', str ''#0095b6''),
    (str ''Bone'', str ''#e3dac9''),
    (str ''Boston University Red'', str ''#cc0000''),
    (str ''Bottle Green'', str ''#006a4e''),
    (str ''Boysenberry'', str ''#873260''),
    (str ''Brandeis Blue'', str ''#0070ff''),
    (str ''Brass'', str ''#b5a642''),
    (str ''Brick Red'', str ''#cb4154''),
    (str ''Bright Cerulean'', str ''#1dacd6''),
    (str ''Bright Green'', str ''#66ff00''),
    (str ''Bright Lavender'', str ''#bf94e4''),
    (str ''Bright Maroon'', str ''#c32148''),
    (str ''Bright Pink'', str ''#ff007f''),
    (str ''Bright Turquoise'', str ''#08e8de''),
    (str ''Bright Ube'', str ''#d19fe8''),
    (str ''Brilliant Lavender'', str ''#f4bbff''),
    (str ''Brilliant Rose'', str ''#ff55a3''),
    (str ''Brink Pink'', str ''#fb607f''),
    (str ''British Racing Green'', str ''#004225''),
    (str ''Bronze'', str ''#cd7f32''),
    (str ''Brown (Traditional)'', str ''#964b00''),
    (str ''Brown (Web)'', str ''#a52a2a''),
    (str ''Bubble Gum'', str ''#ffc1cc''),
    (str ''Bubbles'', str ''#e7feff''),
    (str ''Buff'', str ''#f0dc82''),
    (str ''Bulgarian Rose'', str ''#480607''),
    (str ''Burgundy'', str ''#800020''),
    (str ''Burlywood'', str ''#deb887''),
    (str ''Burnt Orange'', str ''#c50''),
    (str ''Burnt Sienna'', str ''#e97451''),
    (str ''Burnt Umber'', str ''#8a3324''),
    (str ''Byzantine'', str ''#bd33a4''),
    (str ''Byzantium'', str ''#702963''),
    (str ''Cadet'', str ''#536872''),
    (str ''Cadet Blue'', str ''#5f9ea0''),
    (str ''Cadet Grey'', str ''#91a3b0''),
    (str ''Cadmium Green'', str ''#006b3c''),
    (str ''Cadmium Orange'', str ''#ed872d''),
    (str ''Cadmium Red'', str ''#e30022''),
    (str ''Cadmium Yellow'', str ''#fff600''),
    (str ''Caf'' @ [0xE9] @ str '' Au Lait'', str ''#a67b5b''),
    (str ''Caf'' @ [0xE9] @ str '' Noir'', str ''#4b3621''),
    (str ''Cal Poly Green'', str ''#1e4d2b''),
    (str ''Cambridge Blue'', str ''#a3c1ad''),
    (str ''Camel'', str ''#c19a6b''),
    (str ''Cameo Pink'', str ''#efbbcc''),
    (str ''Camouflage Green'', str ''#78866b''),
    (str ''Canary Yellow'', str ''#ffef00''),
    (str ''Candy Apple Red'', str ''#ff0800''),
    (str ''Candy Pink'', str ''#e4717a''),
    (str ''Capri'', str ''#00bfff''),
    (str ''Caput Mortuum'', str ''#592720''),
    (str ''Cardinal'', str ''#c41e3a''),
    (str ''Caribbean Green'', str ''#00cc99''),
    (str ''Carmine'', str ''#960018''),
    (str ''Carmine (M&P)'', str ''#d70040''),
    (str ''Carmine Pink'', str ''#eb4c42''),
    (str ''Carmine Red'', str ''#ff0038''),
    (str ''Carnation Pink'', str ''#ffa6c9''),
    (str ''Carnelian'', str ''#b31b1b''),
    (str ''Carolina Blue'', str ''#99badd''),
    (str ''Carrot Orange'', str ''#ed9121''),
    (str ''Catalina Blue'', str ''#062a78''),
    (str ''Ceil'', str ''#92a1cf''),
    (str ''Celadon'', str ''#ace1af''),
    (str ''Celadon Blue'', str ''#007ba7''),
    (str ''Celadon Green'', str ''#2f847c''),
    (str ''Celeste (Colour)'', str ''#b2ffff''),
    (str ''Celestial Blue'', str ''#4997d0''),
    (str ''Cerise'', str ''#de3163''),
    (str ''Cerise Pink'', str ''#ec3b83''),
    (str ''Cerulean'', str ''#007ba7''),
    (str ''Cerulean Blue'', str ''#2a52be''),
    (str ''Cerulean Frost'', str ''#6d9bc3''),
    (str ''Cg Blue'', str ''#007aa5''),
    (str ''Cg Red'', str ''#e03c31''),
    (str ''Chamoisee'', str ''#a0785a''),
    (str ''Champagne'', str ''#fad6a5''),
    (str ''Charcoal'', str ''#36454f''),
    (str ''Charm Pink'', str ''#e68fac''),
    (str ''Chartreuse (Traditional)'', str ''#dfff00''),
    (str ''Chartreuse (Web)'', str ''#7fff00''),
    (str ''Cherry'', str ''#de3163''),
    (str ''Cherry Blossom Pink'', str ''#ffb7c5''),
    (str ''Chestnut'', str ''#cd5c5c''),
    (str ''China Pink'', str ''#de6fa1''),
    (str ''China Rose'', str ''#a8516e''),
    (str ''Chinese Red'', str ''#aa381e''),
    (str ''Chocolate (Traditional)'', str ''#7b3f00''),
    (str ''Chocolate (Web)'', str ''#d2691e''),
    (str ''Chrome Yellow'', str ''#ffa700''),
    (str ''Cinereous'', str ''#98817b''),
    (str ''Cinnabar'', str ''#e34234''),
    (str ''Cinnamon'', str ''#d2691e''),
    (str ''Citrine'', str ''#e4d00a''),
    (str ''Classic Rose'', str ''#fbcce7''),
    (str ''Cobalt'', str ''#0047ab''),
    (str ''Cocoa Brown'', str ''#d2691e''),
    (str ''Coffee'', str ''#6f4e37''),
    (str ''Columbia Blue'', str ''#9bddff''),
    (str ''Congo Pink'', str ''#f88379''),
    (str ''Cool Black'', str ''#002e63''),
    (str ''Cool Grey'', str ''#8c92ac''),
    (str ''Copper'', str ''#b87333''),
    (str ''Copper (Crayola)'', str ''#da8a67''),
    (str ''Copper Penny'', str ''#ad6f69''),
    (str ''Copper Red'', str ''#cb6d51''),
    (str ''Copper Rose'', str ''#996666''),
    (str ''Coquelicot'', str ''#ff3800''),
    (str ''Coral'', str ''#ff7f50''),
    (str ''Coral Pink'', str ''#f88379''),
    (str ''Coral Red'', str ''#ff4040''),
    (str ''Cordovan'', str ''#893f45''),
    (str ''Corn'', str ''#fbec5d''),
    (str ''Cornell Red'', str ''#b31b1b''),
    (str ''Cornflower Blue'', str ''#6495ed''),
    (str ''Cornsilk'', str ''#fff8dc''),
    (str ''Cosmic Latte'', str ''#fff8e7''),
    (str ''Cotton Candy'', str ''#ffbcd9''),
    (str ''Cream'', str ''#fffdd0''),
    (str ''Crimson'', str ''#dc143c''),
    (str ''Crimson Glory'', str ''#be0032''),
    (str ''Cyan'', str ''#00ffff''),
    (str ''Cyan (Process)'', str ''#00b7eb''),
    (str ''Daffodil'', str ''#ffff31''),
    (str ''Dandelion'', str ''#f0e130''),
    (str ''Dark Blue'', str ''#00008b''),
    (str ''Dark Brown'', str ''#654321''),
    (str ''Dark Byzantium'', str ''#5d3954''),
    (str ''Dark Candy Apple Red'', str ''#a40000''),
    (str ''Dark Cerulean'', str ''#08457e''),
    (str ''Dark Chestnut'', str ''#986960''),
    (str ''Dark Coral'', str ''#cd5b45''),
    (str ''Dark Cyan'', str ''#008b8b''),
    (str ''Dark Electric Blue'', str ''#536878''),
    (str ''Dark Goldenrod'', str ''#b8860b''),
    (str ''Dark Gray'', str ''#a9a9a9''),
    (str ''Dark Green'', str ''#013220''),
    (str ''Dark Imperial Blue'', str ''#00416a''),
    (str ''Dark Jungle Green'', str ''#1a2421''),
    (str ''Dark Khaki'', str ''#bdb76b''),
    (str ''Dark Lava'', str ''#483c32''),
    (str ''Dark Lavender'', str ''#734f96''),
    (str ''Dark Magenta'', str ''#8b008b''),
    (str ''Dark Midnight Blue'', str ''#003366''),
    (str ''Dark Olive Green'', str ''#556b2f''),
    (str ''Dark Orange'', str ''#ff8c00''),
    (str ''Dark Orchid'', str ''#9932cc''),
    (str ''Dark Pastel Blue'', str ''#779ecb''),
    (str ''Dark Pastel Green'', str ''#03c03c''),
    (str ''Dark Pastel Purple'', str ''#966fd6''),
    (str ''Dark Pastel Red'', str ''#c23b22''),
    (str ''Dark Pink'', str ''#e75480''),
    (str ''Dark Powder Blue'', str ''#003399''),
    (str ''Dark Raspberry'', str ''#872657''),
    (str ''Dark Red'', str ''#8b0000''),
    (str ''Dark Salmon'', str ''#e9967a''),
    (str ''Dark Scarlet'', str ''#560319''),
    (str ''Dark Sea Green'', str ''#8fbc8f''),
    (str ''Dark Sienna'', str ''#3c1414''),
    (str ''Dark Slate Blue'', str ''#483d8b''),
    (str ''Dark Slate Gray'', str ''#2f4f4f''),
    (str ''Dark Spring Green'', str ''#177245''),
    (str ''Dark Tan'', str ''#918151''),
    (str ''Dark Tangerine'', str ''#ffa812''),
    (str ''Dark Taupe'', str ''#483c32''),
    (str ''Dark Terra Cotta'', str ''#cc4e5c''),
    (str ''Dark Turquoise'', str ''#00ced1''),
    (str ''Dark Violet'', str ''#9400d3''),
    (str ''Dark Yellow'', str ''#9b870c''),
    (str ''Dartmouth Green'', str ''#00703c''),
    (str ''Davy Grey'', str ''#555555''),
    (str ''Debian Red'', str ''#d70a53''),
    (str ''Deep Carmine'', str ''#a9203e''),
    (str ''Deep Carmine Pink'', str ''#ef3038''),
    (str ''Deep Carrot Orange'', str ''#e9692c''),
    (str ''Deep Cerise'', str ''#da3287''),
    (str ''Deep Champagne'', str ''#fad6a5''),
    (str ''Deep Chestnut'', str ''#b94e48''),
    (str ''Deep Coffee'', str ''#704241''),
    (str ''Deep Fuchsia'', str ''#c154c1''),
    (str ''Deep Jungle Green'', str ''#004b49''),
    (str ''Deep Lilac'', str ''#9955bb''),
    (str ''Deep Magenta'', str ''#cc00cc''),
    (str ''Deep Peach'', str ''#ffcba4''),
    (str ''Deep Pink'', str ''#ff1493''),
    (str ''Deep Ruby'', str ''#843f5b''),
    (str ''Deep Saffron'', str ''#f93''),
    (str ''Deep Sky Blue'', str ''#00bfff''),
    (str ''Deep Tuscan Red'', str ''#66424d''),
    (str ''Denim'', str ''#1560bd''),
    (str ''Desert'', str ''#c19a6b''),
    (str ''Desert Sand'', str ''#edc9af''),
    (str ''Dim Gray'', str ''#696969''),
    (str ''Dodger Blue'', str ''#1e90ff''),
    (str ''Dogwood Rose'', str ''#d71868''),
    (str ''Dollar Bill'', str ''#85bb65''),
    (str ''Drab'', str ''#967117''),
    (str ''Duke Blue'', str ''#00009c''),
    (str ''Earth Yellow'', str ''#e1a95f''),
    (str ''Ebony'', str ''#555d50''),
    (str ''Ecru'', str ''#c2b280''),
    (str ''Eggplant'', str ''#614051''),
    (str ''Eggshell'', str ''#f0ead6''),
    (str ''Egyptian Blue'', str ''#1034a6''),
    (str ''Electric Blue'', str ''#7df9ff''),
    (str ''Electric Crimson'', str ''#ff003f''),
    (str ''Electric Cyan'', str ''#00ffff''),
    (str ''Electric Green'', str ''#00ff00''),
    (str ''Electric Indigo'', str ''#6f00ff''),
    (str ''Electric Lavender'', str ''#f4bbff''),
    (str ''Electric Lime'', str ''#ccff00''),
    (str ''Electric Purple'', str ''#bf00ff''),
    (str ''Electric Ultramarine'', str ''#3f00ff''),
    (str ''Electric Violet'', str ''#8f00ff''),
    (str ''Electric Yellow'', str ''#ffff00''),
    (str ''Emerald'', str ''#50c878''),
    (str ''English Lavender'', str ''#b48395''),
    (str ''Eton Blue'', str ''#96c8a2''),
    (str ''Fallow'', str ''#c19a6b''),
    (str ''Falu Red'', str ''#801818''),
    (str ''Fandango'', str ''#b53389''),
    (str ''Fashion Fuchsia'', str ''#f400a1''),
    (str ''Fawn'', str ''#e5aa70''),
    (str ''Feldgrau'', str ''#4d5d53''),
    (str ''Fern Green'', str ''#4f7942''),
    (str ''Ferrari Red'', str ''#ff2800''),
    (str ''Field Drab'', str ''#6c541e''),
    (str ''Fire Engine Red'', str ''#ce2029''),
    (str ''Firebrick'', str ''#b22222''),
    (str ''Flame'', str ''#e25822''),
    (str ''Flamingo Pink'', str ''#fc8eac''),
    (str ''Flavescent'', str ''#f7e98e''),
    (str ''Flax'', str ''#eedc82''),
    (str ''Floral White'', str ''#fffaf0''),
    (str ''Fluorescent Orange'', str ''#ffbf00''),
    (str ''Fluorescent Pink'', str ''#ff1493''),
    (str ''Fluorescent Yellow'', str ''#ccff00''),
    (str ''Folly'', str ''#ff004f''),
    (str ''Forest Green (Traditional)'', str ''#014421''),
    (str ''Forest Green (Web)'', str ''#228b22''),
    (str ''French Beige'', str ''#a67b5b''),
    (str ''French Blue'', str ''#0072bb''),
    (str ''French Lilac'', str ''#86608e''),
    (str ''French Lime'', str ''#ccff00''),
    (str ''French Raspberry'', str ''#c72c48''),
    (str ''French Rose'', str ''#f64a8a''),
    (str ''Fuchsia'', str ''#ff00ff''),
    (str ''Fuchsia (Crayola)'', str ''#c154c1''),
    (str ''Fuchsia Pink'', str ''#ff77ff''),
    (str ''Fuchsia Rose'', str ''#c74375''),
    (str ''Fulvous'', str ''#e48400''),
    (str ''Fuzzy Wuzzy'', str ''#cc6666''),
    (str ''Gainsboro'', str ''#dcdcdc''),
    (str ''Gamboge'', str ''#e49b0f''),
    (str ''Ghost White'', str ''#f8f8ff''),
    (str ''Ginger'', str ''#b06500''),
    (str ''Glaucous'', str ''#6082b6''),
    (str ''Glitter'', str ''#e6e8fa''),
    (str ''Gold (Metallic)'', str ''#d4af37''),
    (str ''Gold (Web) (Golden)'', str ''#ffd700''),
    (str ''Golden Brown'', str ''#996515''),
    (str ''Golden Poppy'', str ''#fcc200''),
    (str ''Golden Yellow'', str ''#ffdf00''),
    (str ''Goldenrod'', str ''#daa520''),
    (str ''Granny Smith Apple'', str ''#a8e4a0''),
    (str ''Gray'', str ''#808080''),
    (str ''Gray-Asparagus'', str ''#465945''),
    (str ''Gray (Html/Css Gray)'', str ''#808080''),
    (str ''Gray (X11 Gray)'', str ''#bebebe''),
    (str ''Green (Color Wheel) (X11 Green)'', str ''#00ff00''),
    (str ''Green (Crayola)'', str ''#1cac78''),
    (str ''Green (Html/Css Green)'', str ''#008000''),
    (str ''Green (Munsell)'', str ''#00a877''),
    (str ''Green (Ncs)'', str ''#009f6b''),
    (str ''Green (Pigment)'', str ''#00a550''),
    (str ''Green (Ryb)'', str ''#66b032''),
    (str ''Green-Yellow'', str ''#adff2f''),
    (str ''Grullo'', str ''#a99a86''),
    (str ''Guppie Green'', str ''#00ff7f''),
    (str ''Halay'' @ [0xE0] @ str '' '' @ [0xFA] @ str ''Be'', str ''#663854''),
    (str ''Han Blue'', str ''#446ccf''),
    (str ''Han Purple'', str ''#5218fa''),
    (str ''Hansa Yellow'', str ''#e9d66b''),
    (str ''Harlequin'', str ''#3fff00''),
    (str ''Harvard Crimson'', str ''#c90016''),
    (str ''Harvest Gold'', str ''#da9100''),
    (str ''Heart Gold'', str ''#808000''),
    (str ''Heliotrope'', str ''#df73ff''),
    (str ''Hollywood Cerise'', str ''#f400a1''),
    (str ''Honeydew'', str ''#f0fff0''),
    (str ''Honolulu Blue'', str ''#007fbf''),
    (str ''Hooker Green'', str ''#49796b''),
    (str ''Hot Magenta'', str ''#ff1dce''),
    (str ''Hot Pink'', str ''#ff69b4''),
    (str ''Hunter Green'', str ''#355e3b''),
    (str ''Iceberg'', str ''#71a6d2''),
    (str ''Icterine'', str ''#fcf75e''),
    (str ''Imperial Blue'', str ''#002395''),
    (str ''Inchworm'', str ''#b2ec5d''),
    (str ''India Green'', str ''#138808''),
    (str ''Indian Red'', str ''#cd5c5c''),
    (str ''Indian Yellow'', str ''#e3a857''),
    (str ''Indigo'', str ''#6f00ff''),
    (str ''Indigo (Dye)'', str ''#00416a''),
    (str ''Indigo (Web)'', str ''#4b0082''),
    (str ''International Klein Blue'', str ''#002fa7''),
    (str ''International Orange (Aerospace)'', str ''#ff4f00''),
    (str ''International Orange (Engineering)'', str ''#ba160c''),
    (str ''International Orange (Golden Gate Bridge)'', str ''#c0362c''),
    (str ''Iris'', str ''#5a4fcf''),
    (str ''Isabelline'', str ''#f4f0ec''),
    (str ''Islamic Green'', str ''#009000''),
    (str ''Ivory'', str ''#fffff0''),
    (str ''Jade'', str ''#00a86b''),
    (str ''Jasmine'', str ''#f8de7e''),
    (str ''Jasper'', str ''#d73b3e''),
    (str ''Jazzberry Jam'', str ''#a50b5e''),
    (str ''Jet'', str ''#343434''),
    (str ''Jonquil'', str ''#fada5e''),
    (str ''June Bud'', str ''#bdda57''),
    (str ''Jungle Green'', str ''#29ab87''),
    (str ''Kelly Green'', str ''#4cbb17''),
    (str ''Kenyan Copper'', str ''#7c1c05''),
    (str ''Khaki (Html/Css) (Khaki)'', str ''#c3b091''),
    (str ''Khaki (X11) (Light Khaki)'', str ''#f0e68c''),
    (str ''Ku Crimson'', str ''#e8000d''),
    (str ''La Salle Green'', str ''#087830''),
    (str ''Languid Lavender'', str ''#d6cadd''),
    (str ''Lapis Lazuli'', str ''#26619c''),
    (str ''Laser Lemon'', str ''#fefe22''),
    (str ''Laurel Green'', str ''#a9ba9d''),
    (str ''Lava'', str ''#cf1020''),
    (str ''Lavender Blue'', str ''#ccccff''),
    (str ''Lavender Blush'', str ''#fff0f5''),
    (str ''Lavender (Floral)'', str ''#b57edc''),
    (str ''Lavender Gray'', str ''#c4c3d0''),
    (str ''Lavender Indigo'', str ''#9457eb''),
    (str ''Lavender Magenta'', str ''#ee82ee''),
    (str ''Lavender Mist'', str ''#e6e6fa''),
    (str ''Lavender Pink'', str ''#fbaed2''),
    (str ''Lavender Purple'', str ''#967bb6''),
    (str ''Lavender Rose'', str ''#fba0e3''),
    (str ''Lavender (Web)'', str ''#e6e6fa''),
    (str ''Lawn Green'', str ''#7cfc00''),
    (str ''Lemon'', str ''#fff700''),
    (str ''Lemon Chiffon'', str ''#fffacd''),
    (str ''Lemon Lime'', str ''#e3ff00''),
    (str ''Licorice'', str ''#1a1110''),
    (str ''Light Apricot'', str ''#fdd5b1''),
    (str ''Light Blue'', str ''#add8e6''),
    (str ''Light Brown'', str ''#b5651d''),
    (str ''Light Carmine Pink'', str ''#e66771''),
    (str ''Light Coral'', str ''#f08080''),
    (str ''Light Cornflower Blue'', str ''#93ccea''),
    (str ''Light Crimson'', str ''#f56991''),
    (str ''Light Cyan'', str ''#e0ffff''),
    (str ''Light Fuchsia Pink'', str ''#f984ef''),
    (str ''Light Goldenrod Yellow'', str ''#fafad2''),
    (str ''Light Gray'', str ''#d3d3d3''),
    (str ''Light Green'', str ''#90ee90''),
    (str ''Light Khaki'', str ''#f0e68c''),
    (str ''Light Pastel Purple'', str ''#b19cd9''),
    (str ''Light Pink'', str ''#ffb6c1''),
    (str ''Light Red Ochre'', str ''#e97451''),
    (str ''Light Salmon'', str ''#ffa07a''),
    (str ''Light Salmon Pink'', str ''#ff9999''),
    (str ''Light Sea Green'', str ''#20b2aa''),
    (str ''Light Sky Blue'', str ''#87cefa''),
    (str ''Light Slate Gray'', str ''#778899''),
    (str ''Light Taupe'', str ''#b38b6d''),
    (str ''Light Thulian Pink'', str ''#e68fac''),
    (str ''Light Yellow'', str ''#ffffe0''),
    (str ''Lilac'', str ''#c8a2c8''),
    (str ''Lime (Color Wheel)'', str ''#bfff00''),
    (str ''Lime Green'', str ''#32cd32''),
    (str ''Lime (Web) (X11 Green)'', str ''#00ff00''),
    (str ''Limerick'', str ''#9dc209''),
    (str ''Lincoln Green'', str ''#195905''),
    (str ''Linen'', str ''#faf0e6''),
    (str ''Lion'', str ''#c19a6b''),
    (str ''Little Boy Blue'', str ''#6ca0dc''),
    (str ''Liver'', str ''#534b4f''),
    (str ''Lust'', str ''#e62020''),
    (str ''Magenta'', str ''#ff00ff''),
    (str ''Magenta (Dye)'', str ''#ca1f7b''),
    (str ''Magenta (Process)'', str ''#ff0090''),
    (str ''Magic Mint'', str ''#aaf0d1''),
    (str ''Magnolia'', str ''#f8f4ff''),
    (str ''Mahogany'', str ''#c04000''),
    (str ''Maize'', str ''#fbec5d''),
    (str ''Majorelle Blue'', str ''#6050dc''),
    (str ''Malachite'', str ''#0bda51''),
    (str ''Manatee'', str ''#979aaa''),
    (str ''Mango Tango'', str ''#ff8243''),
    (str ''Mantis'', str ''#74c365''),
    (str ''Mardi Gras'', str ''#880085''),
    (str ''Maroon (Crayola)'', str ''#c32148''),
    (str ''Maroon (Html/Css)'', str ''#800000''),
    (str ''Maroon (X11)'', str ''#b03060''),
    (str ''Mauve'', str ''#e0b0ff''),
    (str ''Mauve Taupe'', str ''#915f6d''),
    (str ''Mauvelous'', str ''#ef98aa''),
    (str ''Maya Blue'', str ''#73c2fb''),
    (str ''Meat Brown'', str ''#e5b73b''),
    (str ''Medium Aquamarine'', str ''#66ddaa''),
    (str ''Medium Blue'', str ''#0000cd''),
    (str ''Medium Candy Apple Red'', str ''#e2062c''),
    (str ''Medium Carmine'', str ''#af4035''),
    (str ''Medium Champagne'', str ''#f3e5ab''),
    (str ''Medium Electric Blue'', str ''#035096''),
    (str ''Medium Jungle Green'', str ''#1c352d''),
    (str ''Medium Lavender Magenta'', str ''#dda0dd''),
    (str ''Medium Orchid'', str ''#ba55d3''),
    (str ''Medium Persian Blue'', str ''#0067a5''),
    (str ''Medium Purple'', str ''#9370db''),
    (str ''Medium Red-Violet'', str ''#bb3385''),
    (str ''Medium Ruby'', str ''#aa4069''),
    (str ''Medium Sea Green'', str ''#3cb371''),
    (str ''Medium Slate Blue'', str ''#7b68ee''),
    (str ''Medium Spring Bud'', str ''#c9dc87''),
    (str ''Medium Spring Green'', str ''#00fa9a''),
    (str ''Medium Taupe'', str ''#674c47''),
    (str ''Medium Turquoise'', str ''#48d1cc''),
    (str ''Medium Tuscan Red'', str ''#79443b''),
    (str ''Medium Vermilion'', str ''#d9603b''),
    (str ''Medium Violet-Red'', str ''#c71585''),
    (str ''Mellow Apricot'', str ''#f8b878''),
    (str ''Mellow Yellow'', str ''#f8de7e''),
    (str ''Melon'', str ''#fdbcb4''),
    (str ''Midnight Blue'', str ''#191970''),
    (str ''Midnight Green (Eagle Green)'', str ''#004953''),
    (str ''Mikado Yellow'', str ''#ffc40c''),
    (str ''Mint'', str ''#3eb489''),
    (str ''Mint Cream'', str ''#f5fffa''),
    (str ''Mint Green'', str ''#98ff98''),
    (str ''Misty Rose'', str ''#ffe4e1''),
    (str ''Moccasin'', str ''#faebd7''),
    (str ''Mode Beige'', str ''#967117''),
    (str ''Moonstone Blue'', str ''#73a9c2''),
    (str ''Mordant Red 19'', str ''#ae0c00''),
    (str ''Moss Green'', str ''#addfad''),
    (str ''Mountain Meadow'', str ''#30ba8f''),
    (str ''Mountbatten Pink'', str ''#997a8d''),
    (str ''Msu Green'', str ''#18453b''),
    (str ''Mulberry'', str ''#c54b8c''),
    (str ''Mustard'', str ''#ffdb58''),
    (str ''Myrtle'', str ''#21421e''),
    (str ''Nadeshiko Pink'', str ''#f6adc6''),
    (str ''Napier Green'', str ''#2a8000''),
    (str ''Naples Yellow'', str ''#fada5e''),
    (str ''Navajo White'', str ''#ffdead''),
    (str ''Navy Blue'', str ''#000080''),
    (str ''Neon Carrot'', str ''#ffa343''),
    (str ''Neon Fuchsia'', str ''#fe4164''),
    (str ''Neon Green'', str ''#39ff14''),
    (str ''New York Pink'', str ''#d7837f''),
    (str ''Non-Photo Blue'', str ''#a4dded''),
    (str ''North Texas Green'', str ''#059033''),
    (str ''Ocean Boat Blue'', str ''#0077be''),
    (str ''Ochre'', str ''#cc7722''),
    (str ''Office Green'', str ''#008000''),
    (str ''Old Gold'', str ''#cfb53b''),
    (str ''Old Lace'', str ''#fdf5e6''),
    (str ''Old Lavender'', str ''#796878''),
    (str ''Old Mauve'', str ''#673147''),
    (str ''Old Rose'', str ''#c08081''),
    (str ''Olive'', str ''#808000''),
    (str ''Olive Drab #7'', str ''#3c341f''),
    (str ''Olive Drab (Web) (Olive Drab #3)'', str ''#6b8e23''),
    (str ''Olivine'', str ''#9ab973''),
    (str ''Onyx'', str ''#353839''),
    (str ''Opera Mauve'', str ''#b784a7''),
    (str ''Orange (Color Wheel)'', str ''#ff7f00''),
    (str ''Orange Peel'', str ''#ff9f00''),
    (str ''Orange-Red'', str ''#ff4500''),
    (str ''Orange (Ryb)'', str ''#fb9902''),
    (str ''Orange (Web Color)'', str ''#ffa500''),
    (str ''Orchid'', str ''#da70d6''),
    (str ''Otter Brown'', str ''#654321''),
    (str ''Ou Crimson Red'', str ''#900''),
    (str ''Outer Space'', str ''#414a4c''),
    (str ''Outrageous Orange'', str ''#ff6e4a''),
    (str ''Oxford Blue'', str ''#002147''),
    (str ''Pakistan Green'', str ''#006600''),
    (str ''Palatinate Blue'', str ''#273be2''),
    (str ''Palatinate Purple'', str ''#682860''),
    (str ''Pale Aqua'', str ''#bcd4e6''),
    (str ''Pale Blue'', str ''#afeeee''),
    (str ''Pale Brown'', str ''#987654''),
    (str ''Pale Carmine'', str ''#af4035''),
    (str ''Pale Cerulean'', str ''#9bc4e2''),
    (str ''Pale Chestnut'', str ''#ddadaf''),
    (str ''Pale Copper'', str ''#da8a67''),
    (str ''Pale Cornflower Blue'', str ''#abcdef''),
    (str ''Pale Gold'', str ''#e6be8a''),
    (str ''Pale Goldenrod'', str ''#eee8aa''),
    (str ''Pale Green'', str ''#98fb98''),
    (str ''Pale Lavender'', str ''#dcd0ff''),
    (str ''Pale Magenta'', str ''#f984e5''),
    (str ''Pale Pink'', str ''#fadadd''),
    (str ''Pale Plum'', str ''#dda0dd''),
    (str ''Pale Red-Violet'', str ''#db7093''),
    (str ''Pale Robin Egg Blue'', str ''#96ded1''),
    (str ''Pale Silver'', str ''#c9c0bb''),
    (str ''Pale Spring Bud'', str ''#ecebbd''),
    (str ''Pale Taupe'', str ''#bc987e''),
    (str ''Pale Violet-Red'', str ''#db7093''),
    (str ''Pansy Purple'', str ''#78184a''),
    (str ''Papaya Whip'', str ''#ffefd5''),
    (str ''Paris Green'', str ''#50c878''),
    (str ''Pastel Blue'', str ''#aec6cf''),
    (str ''Pastel Brown'', str ''#836953''),
    (str ''Pastel Gray'', str ''#cfcfc4''),
    (str ''Pastel Green'', str ''#77dd77''),
    (str ''Pastel Magenta'', str ''#f49ac2''),
    (str ''Pastel Orange'', str ''#ffb347''),
    (str ''Pastel Pink'', str ''#dea5a4''),
    (str ''Pastel Purple'', str ''#b39eb5''),
    (str ''Pastel Red'', str ''#ff6961''),
    (str ''Pastel Violet'', str ''#cb99c9''),
    (str ''Pastel Yellow'', str ''#fdfd96''),
    (str ''Patriarch'', str ''#800080''),
    (str ''Payne Grey'', str ''#536878''),
    (str ''Peach'', str ''#ffe5b4''),
    (str ''Peach (Crayola)'', str ''#ffcba4''),
    (str ''Peach-Orange'', str ''#ffcc99''),
    (str ''Peach Puff'', str ''#ffdab9''),
    (str ''Peach-Yellow'', str ''#fadfad''),
    (str ''Pear'', str ''#d1e231''),
    (str ''Pearl'', str ''#eae0c8''),
    (str ''Pearl Aqua'', str ''#88d8c0''),
    (str ''Pearly Purple'', str ''#b768a2''),
    (str ''Peridot'', str ''#e6e200''),
    (str ''Periwinkle'', str ''#ccccff''),
    (str ''Persian Blue'', str ''#1c39bb''),
    (str ''Persian Green'', str ''#00a693''),
    (str ''Persian Indigo'', str ''#32127a''),
    (str ''Persian Orange'', str ''#d99058''),
    (str ''Persian Pink'', str ''#f77fbe''),
    (str ''Persian Plum'', str ''#701c1c''),
    (str ''Persian Red'', str ''#cc3333''),
    (str ''Persian Rose'', str ''#fe28a2''),
    (str ''Persimmon'', str ''#ec5800''),
    (str ''Peru'', str ''#cd853f''),
    (str ''Phlox'', str ''#df00ff''),
    (str ''Phthalo Blue'', str ''#000f89''),
    (str ''Phthalo Green'', str ''#123524''),
    (str ''Piggy Pink'', str ''#fddde6''),
    (str ''Pine Green'', str ''#01796f''),
    (str ''Pink'', str ''#ffc0cb''),
    (str ''Pink Lace'', str ''#ffddf4''),
    (str ''Pink-Orange'', str ''#f96''),
    (str ''Pink Pearl'', str ''#e7accf''),
    (str ''Pink Sherbet'', str ''#f78fa7''),
    (str ''Pistachio'', str ''#93c572''),
    (str ''Platinum'', str ''#e5e4e2''),
    (str ''Plum (Traditional)'', str ''#8e4585''),
    (str ''Plum (Web)'', str ''#dda0dd''),
    (str ''Portland Orange'', str ''#ff5a36''),
    (str ''Powder Blue (Web)'', str ''#b0e0e6''),
    (str ''Princeton Orange'', str ''#ff8f00''),
    (str ''Prune'', str ''#701c1c''),
    (str ''Prussian Blue'', str ''#003153''),
    (str ''Psychedelic Purple'', str ''#df00ff''),
    (str ''Puce'', str ''#cc8899''),
    (str ''Pumpkin'', str ''#ff7518''),
    (str ''Purple Heart'', str ''#69359c''),
    (str ''Purple (Html/Css)'', str ''#800080''),
    (str ''Purple Mountain Majesty'', str ''#9678b6''),
    (str ''Purple (Munsell)'', str ''#9f00c5''),
    (str ''Purple Pizzazz'', str ''#fe4eda''),
    (str ''Purple Taupe'', str ''#50404d''),
    (str ''Purple (X11)'', str ''#a020f0''),
    (str ''Quartz'', str ''#51484f''),
    (str ''Rackley'', str ''#5d8aa8''),
    (str ''Radical Red'', str ''#ff355e''),
    (str ''Rajah'', str ''#fbab60''),
    (str ''Raspberry'', str ''#e30b5d''),
    (str ''Raspberry Glace'', str ''#915f6d''),
    (str ''Raspberry Pink'', str ''#e25098''),
    (str ''Raspberry Rose'', str ''#b3446c''),
    (str ''Raw Umber'', str ''#826644''),
    (str ''Razzle Dazzle Rose'', str ''#ff33cc''),
    (str ''Razzmatazz'', str ''#e3256b''),
    (str ''Red'', str ''#ff0000''),
    (str ''Red-Brown'', str ''#a52a2a''),
    (str ''Red Devil'', str ''#860111''),
    (str ''Red (Munsell)'', str ''#f2003c''),
    (str ''Red (Ncs)'', str ''#c40233''),
    (str ''Red-Orange'', str ''#ff5349''),
    (str ''Red (Pigment)'', str ''#ed1c24''),
    (str ''Red (Ryb)'', str ''#fe2712''),
    (str ''Red-Violet'', str ''#c71585''),
    (str ''Redwood'', str ''#ab4e52''),
    (str ''Regalia'', str ''#522d80''),
    (str ''Resolution Blue'', str ''#002387''),
    (str ''Rich Black'', str ''#004040''),
    (str ''Rich Brilliant Lavender'', str ''#f1a7fe''),
    (str ''Rich Carmine'', str ''#d70040''),
    (str ''Rich Electric Blue'', str ''#0892d0''),
    (str ''Rich Lavender'', str ''#a76bcf''),
    (str ''Rich Lilac'', str ''#b666d2''),
    (str ''Rich Maroon'', str ''#b03060''),
    (str ''Rifle Green'', str ''#414833''),
    (str ''Robin Egg Blue'', str ''#0cc''),
    (str ''Rose'', str ''#ff007f''),
    (str ''Rose Bonbon'', str ''#f9429e''),
    (str ''Rose Ebony'', str ''#674846''),
    (str ''Rose Gold'', str ''#b76e79''),
    (str ''Rose Madder'', str ''#e32636''),
    (str ''Rose Pink'', str ''#f6c''),
    (str ''Rose Quartz'', str ''#aa98a9''),
    (str ''Rose Taupe'', str ''#905d5d''),
    (str ''Rose Vale'', str ''#ab4e52''),
    (str ''Rosewood'', str ''#65000b''),
    (str ''Rosso Corsa'', str ''#d40000''),
    (str ''Rosy Brown'', str ''#bc8f8f''),
    (str ''Royal Azure'', str ''#0038a8''),
    (str ''Royal Blue (Traditional)'', str ''#002366''),
    (str ''Royal Blue (Web)'', str ''#4169e1''),
    (str ''Royal Fuchsia'', str ''#ca2c92''),
    (str ''Royal Purple'', str ''#7851a9''),
    (str ''Royal Yellow'', str ''#fada5e''),
    (str ''Rubine Red'', str ''#d10056''),
    (str ''Ruby'', str ''#e0115f''),
    (str ''Ruby Red'', str ''#9b111e''),
    (str ''Ruddy'', str ''#ff0028''),
    (str ''Ruddy Brown'', str ''#bb6528''),
    (str ''Ruddy Pink'', str ''#e18e96''),
    (str ''Rufous'', str ''#a81c07''),
    (str ''Russet'', str ''#80461b''),
    (str ''Rust'', str ''#b7410e''),
    (str ''Rusty Red'', str ''#da2c43''),
    (str ''Sacramento State Green'', str ''#00563f''),
    (str ''Saddle Brown'', str ''#8b4513''),
    (str ''Safety Orange (Blaze Orange)'', str ''#ff6700''),
    (str ''Saffron'', str ''#f4c430''),
    (str ''Salmon'', str ''#ff8c69''),
    (str ''Salmon Pink'', str ''#ff91a4''),
    (str ''Sand'', str ''#c2b280''),
    (str ''Sand Dune'', str ''#967117''),
    (str ''Sandstorm'', str ''#ecd540''),
    (str ''Sandy Brown'', str ''#f4a460''),
    (str ''Sandy Taupe'', str ''#967117''),
    (str ''Sangria'', str ''#92000a''),
    (str ''Sap Green'', str ''#507d2a''),
    (str ''Sapphire'', str ''#0f52ba''),
    (str ''Sapphire Blue'', str ''#0067a5''),
    (str ''Satin Sheen Gold'', str ''#cba135''),
    (str ''Scarlet'', str ''#ff2400''),
    (str ''Scarlet (Crayola)'', str ''#fd0e35''),
    (str ''School Bus Yellow'', str ''#ffd800''),
    (str ''Screamin Green'', str ''#76ff7a''),
    (str ''Sea Blue'', str ''#006994''),
    (str ''Sea Green'', str ''#2e8b57''),
    (str ''Seal Brown'', str ''#321414''),
    (str ''Seashell'', str ''#fff5ee''),
    (str ''Selective Yellow'', str ''#ffba00''),
    (str ''Sepia'', str ''#704214''),
    (str ''Shadow'', str ''#8a795d''),
    (str ''Shamrock Green'', str ''#009e60''),
    (str ''Shocking Pink'', str ''#fc0fc0''),
    (str ''Shocking Pink (Crayola)'', str ''#ff6fff''),
    (str ''Sienna'', str ''#882d17''),
    (str ''Silver'', str ''#c0c0c0''),
    (str ''Sinopia'', str ''#cb410b''),
    (str ''Skobeloff'', str ''#007474''),
    (str ''Sky Blue'', str ''#87ceeb''),
    (str ''Sky Magenta'', str ''#cf71af''),
    (str ''Slate Blue'', str ''#6a5acd''),
    (str ''Slate Gray'', str ''#708090''),
    (str ''Smalt (Dark Powder Blue)'', str ''#039''),
    (str ''Smokey Topaz'', str ''#933d41''),
    (str ''Smoky Black'', str ''#100c08''),
    (str ''Snow'', str ''#fffafa''),
    (str ''Spiro Disco Ball'', str ''#0fc0fc''),
    (str ''Spring Bud'', str ''#a7fc00''),
    (str ''Spring Green'', str ''#00ff7f''),
    (str ''St. Patrick Blue'', str ''#23297a''),
    (str ''Steel Blue'', str ''#4682b4''),
    (str ''Stil De Grain Yellow'', str ''#fada5e''),
    (str ''Stizza'', str ''#900''),
    (str ''Stormcloud'', str ''#4f666a''),
    (str ''Straw'', str ''#e4d96f''),
    (str ''Sunglow'', str ''#ffcc33''),
    (str ''Sunset'', str ''#fad6a5''),
    (str ''Tan'', str ''#d2b48c''),
    (str ''Tangelo'', str ''#f94d00''),
    (str ''Tangerine'', str ''#f28500''),
    (str ''Tangerine Yellow'', str ''#ffcc00''),
    (str ''Tango Pink'', str ''#e4717a''),
    (str ''Taupe'', str ''#483c32''),
    (str ''Taupe Gray'', str ''#8b8589''),
    (str ''Tea Green'', str ''#d0f0c0''),
    (str ''Tea Rose (Orange)'', str ''#f88379''),
    (str ''Tea Rose (Rose)'', str ''#f4c2c2''),
    (str ''Teal'', str ''#008080''),
    (str ''Teal Blue'', str ''#367588''),
    (str ''Teal Green'', str ''#00827f''),
    (str ''Telemagenta'', str ''#cf3476''),
    (str ''Tenn'' @ [0xE9] @ str '' (Tawny)'', str ''#cd5700''),
    (str ''Terra Cotta'', str ''#e2725b''),
    (str ''Thistle'', str ''#d8bfd8''),
    (str ''Thulian Pink'', str ''#de6fa1''),
    (str ''Tickle Me Pink'', str ''#fc89ac''),
    (str ''Tiffany Blue'', str ''#0abab5''),
    (str ''Tiger Eye'', str ''#e08d3c''),
    (str ''Timberwolf'', str ''#dbd7d2''),
    (str ''Titanium Yellow'', str ''#eee600''),
    (str ''Tomato'', str ''#ff6347''),
    (str ''Toolbox'', str ''#746cc0''),
    (str ''Topaz'', str ''#ffc87c''),
    (str ''Tractor Red'', str ''#fd0e35''),
    (str ''Trolley Grey'', str ''#808080''),
    (str ''Tropical Rain Forest'', str ''#00755e''),
    (str ''True Blue'', str ''#0073cf''),
    (str ''Tufts Blue'', str ''#417dc1''),
    (str ''Tumbleweed'', str ''#deaa88''),
    (str ''Turkish Rose'', str ''#b57281''),
    (str ''Turquoise'', str ''#30d5c8''),
    (str ''Turquoise Blue'', str ''#00ffef''),
    (str ''Turquoise Green'', str ''#a0d6b4''),
    (str ''Tuscan Red'', str ''#7c4848''),
    (str ''Twilight Lavender'', str ''#8a496b''),
    (str ''Tyrian Purple'', str ''#66023c''),
    (str ''Ua Blue'', str ''#0033aa''),
    (str ''Ua Red'', str ''#d9004c''),
    (str ''Ube'', str ''#8878c3''),
    (str ''Ucla Blue'', str ''#536895''),
    (str ''Ucla Gold'', str ''#ffb300''),
    (str ''Ufo Green'', str ''#3cd070''),
    (str ''Ultra Pink'', str ''#ff6fff''),
    (str ''Ultramarine'', str ''#120a8f''),
    (str ''Ultramarine Blue'', str ''#4166f5''),
    (str ''Umber'', str ''#635147''),
    (str ''Unbleached Silk'', str ''#ffddca''),
    (str ''United Nations Blue'', str ''#5b92e5''),
    (str ''University Of California Gold'', str ''#b78727''),
    (str ''Unmellow Yellow'', str ''#ffff66''),
    (str ''Up Forest Green'', str ''#014421''),
    (str ''Up Maroon'', str ''#7b1113''),
    (str ''Upsdell Red'', str ''#ae2029''),
    (str ''Urobilin'', str ''#e1ad21''),
    (str ''Usafa Blue'', str ''#004f98''),
    (str ''Usc Cardinal'', str ''#990000''),
    (str ''Usc Gold'', str ''#ffcc00''),
    (str ''Utah Crimson'', str ''#d3003f''),
    (str ''Vanilla'', str ''#f3e5ab''),
    (str ''Vegas Gold'', str ''#c5b358''),
    (str ''Venetian Red'', str ''#c80815''),
    (str ''Verdigris'', str ''#43b3ae''),
    (str ''Vermilion (Cinnabar)'', str ''#e34234''),
    (str ''Vermilion (Plochere)'', str ''#d9603b''),
    (str ''Veronica'', str ''#a020f0''),
    (str ''Violet'', str ''#8f00ff''),
    (str ''Violet-Blue'', str ''#324ab2''),
    (str ''Violet (Color Wheel)'', str ''#7f00ff''),
    (str ''Violet (Ryb)'', str ''#8601af''),
    (str ''Violet (Web)'', str ''#ee82ee''),
    (str ''Viridian'', str ''#40826d''),
    (str ''Vivid Auburn'', str ''#922724''),
    (str ''Vivid Burgundy'', str ''#9f1d35''),
    (str ''Vivid Cerise'', str ''#da1d81''),
    (str ''Vivid Tangerine'', str ''#ffa089''),
    (str ''Vivid Violet'', str ''#9f00ff''),
    (str ''Warm Black'', str ''#004242''),
    (str ''Waterspout'', str ''#a4f4f9''),
    (str ''Wenge'', str ''#645452''),
    (str ''Wheat'', str ''#f5deb3''),
    (str ''White'', str ''#ffffff''),
    (str ''White Smoke'', str ''#f5f5f5''),
    (str ''Wild Blue Yonder'', str ''#a2add0''),
    (str ''Wild Strawberry'', str ''#ff43a4''),
    (str ''Wild Watermelon'', str ''#fc6c85''),
    (str ''Wine'', str ''#722f37''),
    (str ''Wine Dregs'', str ''#673147''),
    (str ''Wisteria'', str ''#c9a0dc''),
    (str ''Wood Brown'', str ''#c19a6b''),
    (str ''Xanadu'', str ''#738678''),
    (str ''Yale Blue'', str ''#0f4d92''),
    (str ''Yellow'', str ''#ffff00''),
    (str ''Yellow-Green'', str ''#9acd32''),
    (str ''Yellow (Munsell)'', str ''#efcc00''),
    (str ''Yellow (Ncs)'', str ''#ffd300''),
    (str ''Yellow Orange'', str ''#ffae42''),
    (str ''Yellow (Process)'', str ''#ffef00''),
    (str ''Yellow (Ryb)'', str ''#fefe33''),
    (str ''Zaffre'', str ''#0014a8''),
    (str ''Zinnwaldite Brown'', str ''#2c1608'')]"

definition HTML4_HEX_TO_NAMES :: "(pystr \<times> pystr) list" where
  "HTML4_HEX_TO_NAMES = reversedict HTML4_NAMES_TO_HEX"

definition CSS2_HEX_TO_NAMES :: "(pystr \<times> pystr) list" where
  "CSS2_HEX_TO_NAMES = HTML4_HEX_TO_NAMES"

definition CSS21_HEX_TO_NAMES :: "(pystr \<times> pystr) list" where
  "CSS21_HEX_TO_NAMES = reversedict CSS21_NAMES_TO_HEX"

definition COLOR_HEXA_HEX_TO_NAMES :: "(pystr \<times> pystr) list" where
  "COLOR_HEXA_HEX_TO_NAMES = reversedict COLOR_HEXA_NAMES_TO_HEX"

text \<open>
  The reverse table of CSS3 is the reversed dictionary followed by the seven assignments
  of the source, in their order.
\<close>

definition CSS3_PINNED :: "(pystr \<times> pystr) list" where
  "CSS3_PINNED = [
    (str ''#a9a9a9'', str ''darkgray''),
    (str ''#2f4f4f'', str ''darkslategray''),
    (str ''#696969'', str ''dimgray''),
    (str ''#808080'', str ''gray''),
    (str ''#d3d3d3'', str ''lightgray''),
    (str ''#778899'', str ''lightslategray''),
    (str ''#708090'', str ''slategray'')]"

definition CSS3_HEX_TO_NAMES :: "(pystr \<times> pystr) list" where
  "CSS3_HEX_TO_NAMES =
     fold (\<lambda>(k, v) acc. dict_set acc k v) CSS3_PINNED (reversedict CSS3_NAMES_TO_HEX)"

section \<open>String operations of the Python runtime\<close>

text \<open>An exception raised by a subexpression ends the evaluation of the whole expression.\<close>

definition and_then :: "error + 'a \<Rightarrow> ('a \<Rightarrow> error + 'b) \<Rightarrow> error + 'b" where
  "and_then m f = (case m of Inl e \<Rightarrow> Inl e | Inr x \<Rightarrow> f x)"

text \<open>\<^verbatim>\<open>string.hexdigits\<close>; \<^verbatim>\<open>c in string.hexdigits\<close> for a single character \<open>c\<close> is membership.\<close>

definition hexdigits :: pystr where
  "hexdigits = str ''0123456789abcdefABCDEF''"

definition is_hexdigit :: "nat \<Rightarrow> bool" where
  "is_hexdigit c \<longleftrightarrow> c \<in> set hexdigits"

text \<open>
  \<^verbatim>\<open>str.isspace\<close> for one code point: the white space of Unicode, which is what
  \<^verbatim>\<open>str.strip()\<close> removes at both ends.
\<close>

definition isspace :: "nat \<Rightarrow> bool" where
  "isspace c \<longleftrightarrow>
     (0x09 \<le> c \<and> c \<le> 0x0D) \<or> (0x1C \<le> c \<and> c \<le> 0x20) \<or> c = 0x85 \<or> c = 0xA0 \<or>
     c = 0x1680 \<or> (0x2000 \<le> c \<and> c \<le> 0x200A) \<or> c = 0x2028 \<or> c = 0x2029 \<or>
     c = 0x202F \<or> c = 0x205F \<or> c = 0x3000"

definition strip :: "pystr \<Rightarrow> pystr" where
  "strip s = rev (dropWhile isspace (rev (dropWhile isspace s)))"

text \<open>
  \<^verbatim>\<open>str.lower()\<close>. On ASCII it maps \<open>A\<close>-\<open>Z\<close> to \<open>a\<close>-\<open>z\<close>. Outside ASCII the model keeps the
  two code points whose lower case contains an ASCII letter, U+0130 (to \<open>i\<close> and U+0307) and
  U+212A, the Kelvin sign (to \<open>k\<close>), and leaves every other code point as it is: the lower
  case of such a code point is not ASCII either, and the module compares lowered strings
  with ASCII strings only.
\<close>

definition lower_char :: "nat \<Rightarrow> pystr" where
  "lower_char c =
     (if 0x41 \<le> c \<and> c \<le> 0x5A then [c + 0x20]
      else if c = 0x130 then [0x69, 0x307]
      else if c = 0x212A then [0x6B]
      else [c])"

definition lower :: "pystr \<Rightarrow> pystr" where
  "lower s = concat (map lower_char s)"

definition startswith :: "pystr \<Rightarrow> pystr \<Rightarrow> bool" where
  "startswith s prefix \<longleftrightarrow> take (length prefix) s = prefix"

text \<open>\<^verbatim>\<open>s[i:j]\<close> for \<open>0 \<le> i \<le> j\<close>; a slice never raises.\<close>

definition slice :: "nat \<Rightarrow> nat \<Rightarrow> pystr \<Rightarrow> pystr" where
  "slice i j s = take (j - i) (drop i s)"

text \<open>\<^verbatim>\<open>s[i]\<close> raises \<^verbatim>\<open>IndexError\<close> out of range.\<close>

definition index :: "pystr \<Rightarrow> nat \<Rightarrow> error + nat" where
  "index s i = (if i < length s then Inr (s ! i) else Inl IndexError)"

text \<open>
  \<^verbatim>\<open>int(s, 16)\<close> on a non-empty string of ASCII hex digits, most significant digit first.
  Python reads a few more forms (a sign, a \<^verbatim>\<open>0x\<close> prefix, underscores, white space around);
  every call of the module passes hex digits only, and the model raises on anything else.
\<close>

definition digit_value :: "nat \<Rightarrow> int" where
  "digit_value c =
     (if 0x30 \<le> c \<and> c \<le> 0x39 then int c - 0x30
      else if 0x61 \<le> c \<and> c \<le> 0x66 then int c - 0x61 + 10
      else int c - 0x41 + 10)"

definition int_16 :: "pystr \<Rightarrow> error + int" where
  "int_16 s =
     (if s \<noteq> [] \<and> list_all is_hexdigit s
      then Inr (foldl (\<lambda>acc c. 16 * acc + digit_value c) 0 s)
      else Inl IntValueError)"

text \<open>
  \<^verbatim>\<open>"{:02x}".format(v)\<close>: lower-case hex digits of the magnitude, filled with zeros after
  the sign up to a width of two.
\<close>

definition hex_digit :: "nat \<Rightarrow> nat" where
  "hex_digit d = (if d < 10 then 0x30 + d else 0x61 + (d - 10))"

fun format_x :: "nat \<Rightarrow> pystr" where
  "format_x n = (if n < 16 then [hex_digit n] else format_x (n div 16) @ [hex_digit (n mod 16)])"

declare format_x.simps [simp del]

definition format_02x :: "int \<Rightarrow> pystr" where
  "format_02x v =
     (let digits = format_x (nat \<bar>v\<bar>);
          sign = (if v < 0 then str ''-'' else [])
      in sign @ replicate (2 - length sign - length digits) 0x30 @ digits)"

section \<open>Normalization functions\<close>

text \<open>
  \<^verbatim>\<open>HEX_COLOR_RE.match(s)\<close> for \<^verbatim>\<open>^#([a-fA-F0-9]{3}|[a-fA-F0-9]{6})$\<close>, giving
  \<^verbatim>\<open>group(1)\<close>. Without the MULTILINE flag \<^verbatim>\<open>$\<close> matches at the end of the string and also
  just before a newline that ends the string.
\<close>

definition re_hex_class :: "nat \<Rightarrow> bool" where
  "re_hex_class c \<longleftrightarrow>
     (0x61 \<le> c \<and> c \<le> 0x66) \<or> (0x41 \<le> c \<and> c \<le> 0x46) \<or> (0x30 \<le> c \<and> c \<le> 0x39)"

definition HEX_COLOR_RE_match :: "pystr \<Rightarrow> pystr option" where
  "HEX_COLOR_RE_match s =
     (case s of
        [] \<Rightarrow> None
      | c # t \<Rightarrow>
          if c \<noteq> 0x23 then None
          else
            let body = (if t \<noteq> [] \<and> last t = 0x0A then butlast t else t)
            in if (length body = 3 \<or> length body = 6) \<and> list_all re_hex_class body
               then Some body else None)"

definition normalize_hex :: "pystr \<Rightarrow> error + pystr" where
  "normalize_hex hex_value =
     (case HEX_COLOR_RE_match hex_value of
        None \<Rightarrow> Inl InvalidFormat
      | Some hex_digits \<Rightarrow>
          let hex_digits' =
                (if length hex_digits = 3 then concat (map (\<lambda>s. [s, s]) hex_digits)
                 else hex_digits)
          in Inr (str ''#'' @ lower hex_digits'))"

type_synonym IntegerRGB = "int \<times> int \<times> int"
type_synonym HTML5SimpleColor = "int \<times> int \<times> int"

definition normalize_integer_rgb :: "int \<Rightarrow> int" where
  "normalize_integer_rgb v = (if v < 0 then 0 else if v > 255 then 255 else v)"

definition normalize_integer_triplet :: "IntegerRGB \<Rightarrow> IntegerRGB" where
  "normalize_integer_triplet rgb_triplet =
     (case rgb_triplet of (r, g, b) \<Rightarrow>
        (normalize_integer_rgb r, normalize_integer_rgb g, normalize_integer_rgb b))"

section \<open>Conversions between names, hexadecimal values and integer triplets\<close>

definition name_to_hex :: "pystr \<Rightarrow> pystr \<Rightarrow> error + pystr" where
  "name_to_hex name spec =
     (if spec \<notin> set SUPPORTED_SPECIFICATIONS
      then Inl (UnsupportedSpecification (SPECIFICATION_ERROR_TEMPLATE spec))
      else
        let normalized = lower name in
        case dict_get [(CSS2, CSS2_NAMES_TO_HEX), (CSS21, CSS21_NAMES_TO_HEX),
                       (CSS3, CSS3_NAMES_TO_HEX), (HTML4, HTML4_NAMES_TO_HEX),
                       (COLOR_HEXA, COLOR_HEXA_NAMES_TO_HEX)] spec of
          None \<Rightarrow> Inl KeyError
        | Some table \<Rightarrow>
            (case dict_get table normalized of
               None \<Rightarrow> Inl NameNotFound
             | Some hex_value \<Rightarrow> Inr hex_value))"

definition hex_to_name :: "pystr \<Rightarrow> pystr \<Rightarrow> error + pystr" where
  "hex_to_name hex_value spec =
     (if spec \<notin> set SUPPORTED_SPECIFICATIONS
      then Inl (UnsupportedSpecification (SPECIFICATION_ERROR_TEMPLATE spec))
      else
        case normalize_hex hex_value of
          Inl e \<Rightarrow> Inl e
        | Inr normalized \<Rightarrow>
            (case dict_get [(CSS2, CSS2_HEX_TO_NAMES), (CSS21, CSS21_HEX_TO_NAMES),
                            (CSS3, CSS3_HEX_TO_NAMES), (HTML4, HTML4_HEX_TO_NAMES),
                            (COLOR_HEXA, COLOR_HEXA_HEX_TO_NAMES)] spec of
               None \<Rightarrow> Inl KeyError
             | Some table \<Rightarrow>
                 (case dict_get table normalized of
                    None \<Rightarrow> Inl HexNotFound
                  | Some name \<Rightarrow> Inr name)))"

definition hex_to_rgb :: "pystr \<Rightarrow> error + IntegerRGB" where
  "hex_to_rgb hex_value =
     (case normalize_hex hex_value of
        Inl e \<Rightarrow> Inl e
      | Inr normalized \<Rightarrow>
          (case int_16 (drop 1 normalized) of
             Inl e \<Rightarrow> Inl e
           | Inr int_value \<Rightarrow>
               Inr (drop_bit 16 int_value, drop_bit 8 int_value AND 0xFF, int_value AND 0xFF)))"

definition rgb_to_hex :: "IntegerRGB \<Rightarrow> pystr" where
  "rgb_to_hex rgb_triplet =
     (case normalize_integer_triplet rgb_triplet of (r, g, b) \<Rightarrow>
        str ''#'' @ format_02x r @ format_02x g @ format_02x b)"

definition rgb_to_name :: "IntegerRGB \<Rightarrow> pystr \<Rightarrow> error + pystr" where
  "rgb_to_name rgb_triplet spec =
     hex_to_name (rgb_to_hex (normalize_integer_triplet rgb_triplet)) spec"

definition name_to_rgb :: "pystr \<Rightarrow> pystr \<Rightarrow> error + IntegerRGB" where
  "name_to_rgb name spec =
     (case name_to_hex name spec of Inl e \<Rightarrow> Inl e | Inr h \<Rightarrow> hex_to_rgb h)"

section \<open>HTML5 color algorithms\<close>

definition html5_parse_simple_color :: "pystr \<Rightarrow> error + HTML5SimpleColor" where
  "html5_parse_simple_color input =
     (if length input \<noteq> 7 then Inl InvalidLength
      else if \<not> startswith input (str ''#'') then Inl MissingHashPrefix
      else if \<not> list_all is_hexdigit (drop 1 input) then Inl InvalidHexDigits
      else
        and_then (int_16 (slice 1 3 input)) (\<lambda>red.
        and_then (int_16 (slice 3 5 input)) (\<lambda>green.
        and_then (int_16 (slice 5 7 input)) (\<lambda>blue.
        Inr (red, green, blue)))))"

definition html5_serialize_simple_color :: "HTML5SimpleColor \<Rightarrow> pystr" where
  "html5_serialize_simple_color simple_color =
     (case simple_color of (red, green, blue) \<Rightarrow>
        str ''#'' @ format_02x red @ format_02x green @ format_02x blue)"

text \<open>
  Step 11 of the legacy algorithm: \<^verbatim>\<open>while (len(input) == 0) or (len(input) % 3 != 0):
  input += "0"\<close>.
\<close>

function pad_loop :: "pystr \<Rightarrow> pystr" where
  "pad_loop input =
     (if length input = 0 \<or> length input mod 3 \<noteq> 0 then pad_loop (input @ str ''0'')
      else input)"
  by pat_completeness auto
termination
  by (relation "measure (\<lambda>s. if length s = 0 then 3 else (3 - length s mod 3) mod 3)")
     (auto simp: str_def mod_Suc)

declare pad_loop.simps [simp del]

text \<open>
  Step 14: \<^verbatim>\<open>while (length > 2) and (red[0] == "0" and green[0] == "0" and blue[0] == "0")\<close>,
  with the subscripts evaluated left to right and the body
  \<^verbatim>\<open>red, green, blue = (red[1:], green[1:], blue[1:]); length -= 1\<close>.
\<close>

fun trim_loop :: "nat \<Rightarrow> pystr \<Rightarrow> pystr \<Rightarrow> pystr \<Rightarrow> error + (nat \<times> pystr \<times> pystr \<times> pystr)" where
  "trim_loop len red green blue =
     (if len > 2 then
        and_then (index red 0) (\<lambda>r0.
          if r0 \<noteq> 0x30 then Inr (len, red, green, blue) else
        and_then (index green 0) (\<lambda>g0.
          if g0 \<noteq> 0x30 then Inr (len, red, green, blue) else
        and_then (index blue 0) (\<lambda>b0.
          if b0 \<noteq> 0x30 then Inr (len, red, green, blue) else
          trim_loop (len - 1) (drop 1 red) (drop 1 green) (drop 1 blue))))
      else Inr (len, red, green, blue))"

declare trim_loop.simps [simp del]

definition html5_parse_legacy_color :: "pystr \<Rightarrow> error + HTML5SimpleColor" where
  "html5_parse_legacy_color input0 =
     (if input0 = [] then Inl EmptyInput
      else
        let input = strip input0 in
        if lower input = str ''transparent'' then Inl TransparentNotAllowed
        else
          case dict_get CSS3_NAMES_TO_HEX (lower input) of
            Some keyword_hex \<Rightarrow> html5_parse_simple_color keyword_hex
          | None \<Rightarrow>
              if length input = 4 \<and> startswith input (str ''#'')
                 \<and> list_all is_hexdigit (drop 1 input)
              then
                and_then (index input 1) (\<lambda>c1.
                and_then (int_16 [c1]) (\<lambda>r.
                and_then (index input 2) (\<lambda>c2.
                and_then (int_16 [c2]) (\<lambda>g.
                and_then (index input 3) (\<lambda>c3.
                and_then (int_16 [c3]) (\<lambda>b.
                Inr (r * 17, g * 17, b * 17)))))))
              else
                let input = concat (map (\<lambda>c. if c > 0xFFFF then str ''00'' else [c]) input);
                    input = (if length input > 128 then take 128 input else input);
                    input = (if startswith input (str ''#'') then drop 1 input else input);
                    input = map (\<lambda>c. if is_hexdigit c then c else 0x30) input;
                    input = pad_loop input;
                    len = length input div 3;
                    red = take len input;
                    green = slice len (len * 2) input;
                    blue = drop (len * 2) input;
                    (red, green, blue, len) =
                      (if len > 8
                       then (drop (len - 8) red, drop (len - 8) green, drop (len - 8) blue, 8)
                       else (red, green, blue, len))
                in
                  and_then (trim_loop len red green blue) (\<lambda>(len, red, green, blue).
                    let (red, green, blue) =
                          (if len > 2 then (take 2 red, take 2 green, take 2 blue)
                           else (red, green, blue))
                    in
                      and_then (int_16 red) (\<lambda>r.
                      and_then (int_16 green) (\<lambda>g.
                      and_then (int_16 blue) (\<lambda>b.
                      Inr (r, g, b))))))"

section \<open>Notions used in the statements\<close>

text \<open>The number of \<open>0\<close> characters a string starts with.\<close>

definition leading_zeros :: "pystr \<Rightarrow> nat" where
  "leading_zeros s = length (takeWhile (\<lambda>c. c = 0x30) s)"

text \<open>The lower-case form of an ASCII character.\<close>

definition lc :: "nat \<Rightarrow> nat" where
  "lc c = (if 0x41 \<le> c \<and> c \<le> 0x5A then c + 0x20 else c)"

text \<open>
  Two parts of \<open>html5_parse_legacy_color\<close>, named for the proofs: steps 7 to 11, which
  rewrite the input, and steps 12 to 20, which split it and read the components.
\<close>

definition legacy_pre :: "pystr \<Rightarrow> pystr" where
  "legacy_pre input =
     (let input = concat (map (\<lambda>c. if c > 0xFFFF then str ''00'' else [c]) input);
          input = (if length input > 128 then take 128 input else input);
          input = (if startswith input (str ''#'') then drop 1 input else input);
          input = map (\<lambda>c. if is_hexdigit c then c else 0x30) input
      in pad_loop input)"

definition legacy_tail :: "pystr \<Rightarrow> error + HTML5SimpleColor" where
  "legacy_tail input =
     (let len = length input div 3;
          red = take len input;
          green = slice len (len * 2) input;
          blue = drop (len * 2) input;
          (red, green, blue, len) =
            (if len > 8
             then (drop (len - 8) red, drop (len - 8) green, drop (len - 8) blue, 8)
             else (red, green, blue, len))
      in
        and_then (trim_loop len red green blue) (\<lambda>(len, red, green, blue).
          let (red, green, blue) =
                (if len > 2 then (take 2 red, take 2 green, take 2 blue)
                 else (red, green, blue))
          in
            and_then (int_16 red) (\<lambda>r.
            and_then (int_16 green) (\<lambda>g.
            and_then (int_16 blue) (\<lambda>b.
            Inr (r, g, b))))))"

section \<open>Basic facts about hex digits\<close>

lemma is_hexdigit_iff:
  "is_hexdigit c \<longleftrightarrow>
     (0x30 \<le> c \<and> c \<le> 0x39) \<or> (0x41 \<le> c \<and> c \<le> 0x46) \<or> (0x61 \<le> c \<and> c \<le> 0x66)"
  unfolding is_hexdigit_def hexdigits_def str_def by (simp, arith)

lemma digit_value_range: "is_hexdigit c \<Longrightarrow> 0 \<le> digit_value c \<and> digit_value c \<le> 15"
  unfolding is_hexdigit_iff digit_value_def by auto

lemma int_16_one: "is_hexdigit a \<Longrightarrow> int_16 [a] = Inr (digit_value a)"
  by (simp add: int_16_def)

lemma int_16_two:
  "is_hexdigit a \<Longrightarrow> is_hexdigit b \<Longrightarrow> int_16 [a, b] = Inr (16 * digit_value a + digit_value b)"
  by (simp add: int_16_def)

lemma length7E:
  assumes "length xs = 7"
  obtains a b c d e f g where "xs = [a, b, c, d, e, f, g]"
  using assms by (auto simp: length_Suc_conv eval_nat_numeral)

section \<open>The supported specifications\<close>

text \<open>
  C1: the lookup functions should accept \<open>COLOR_HEXA\<close>. They do not:
  \<open>SUPPORTED_SPECIFICATIONS\<close> lists four tags only, so for every name and every hex value
  \<open>name_to_hex\<close> and \<open>hex_to_name\<close> raise the unsupported-specification error on the tag
  \<open>COLOR_HEXA\<close>, with a message that names \<open>html4,css2,css21,css3\<close> as the supported set,
  although both functions have an entry for \<open>COLOR_HEXA\<close> in the dictionary they select
  the table from.
\<close>

theorem name_to_hex_COLOR_HEXA_unsupported:
  "name_to_hex name COLOR_HEXA
     = Inl (UnsupportedSpecification (SPECIFICATION_ERROR_TEMPLATE COLOR_HEXA))
   \<and> hex_to_name hex_value COLOR_HEXA
     = Inl (UnsupportedSpecification (SPECIFICATION_ERROR_TEMPLATE COLOR_HEXA))
   \<and> SPECIFICATION_ERROR_TEMPLATE COLOR_HEXA =
       str ''color_hexa is not a supported specification for color name lookups; supported specifications are: html4,css2,css21,css3.''"
  by (simp add: name_to_hex_def hex_to_name_def SUPPORTED_SPECIFICATIONS_def
      SPECIFICATION_ERROR_TEMPLATE_def COLOR_HEXA_def HTML4_def CSS2_def CSS21_def CSS3_def str_def)

section \<open>The simple color parser\<close>

text \<open>
  C6: \<open>html5_parse_simple_color\<close> raises \<open>InvalidLength\<close> exactly when the input is not seven
  characters long; on seven characters it raises \<open>MissingHashPrefix\<close> exactly when the first
  one is not \<open>#\<close>; after a \<open>#\<close> it raises \<open>InvalidHexDigits\<close> exactly when the other six are
  not all ASCII hex digits; and on an input that passes the three checks it returns the
  three bytes that characters 2-3, 4-5 and 6-7 denote in base 16.
\<close>

theorem html5_parse_simple_color_cases:
  "(html5_parse_simple_color input = Inl InvalidLength \<longleftrightarrow> length input \<noteq> 7) \<and>
   (length input = 7 \<longrightarrow>
      (html5_parse_simple_color input = Inl MissingHashPrefix \<longleftrightarrow> input ! 0 \<noteq> 0x23)) \<and>
   (length input = 7 \<and> input ! 0 = 0x23 \<longrightarrow>
      (html5_parse_simple_color input = Inl InvalidHexDigits
         \<longleftrightarrow> \<not> list_all is_hexdigit (drop 1 input))) \<and>
   (length input = 7 \<and> input ! 0 = 0x23 \<and> list_all is_hexdigit (drop 1 input) \<longrightarrow>
      html5_parse_simple_color input =
        Inr (16 * digit_value (input ! 1) + digit_value (input ! 2),
             16 * digit_value (input ! 3) + digit_value (input ! 4),
             16 * digit_value (input ! 5) + digit_value (input ! 6)))"
proof (cases "length input = 7")
  case False
  then show ?thesis by (simp add: html5_parse_simple_color_def)
next
  case True
  then obtain a b c d e f g where xs: "input = [a, b, c, d, e, f, g]"
    by (rule length7E)
  show ?thesis
    unfolding xs html5_parse_simple_color_def
    by (auto simp: startswith_def str_def slice_def and_then_def int_16_two)
qed

theorem html5_parse_simple_color_cases_witness:
  "length (str ''#123456'') = 7 \<and> str ''#123456'' ! 0 = 0x23
   \<and> list_all is_hexdigit (drop 1 (str ''#123456''))
   \<and> html5_parse_simple_color (str ''#123456'') = Inr (18, 52, 86)
   \<and> length (str ''#1234'') \<noteq> 7
   \<and> html5_parse_simple_color (str ''#1234'') = Inl InvalidLength"
proof -
  have h: "length (str ''#123456'') = 7 \<and> str ''#123456'' ! 0 = 0x23
     \<and> list_all is_hexdigit (drop 1 (str ''#123456''))"
    by (simp add: str_def is_hexdigit_iff)
  show ?thesis
    using h html5_parse_simple_color_cases [of "str ''#123456''"]
      html5_parse_simple_color_cases [of "str ''#1234''"]
    by (simp add: str_def digit_value_def)
qed

section \<open>The legacy color parser: the four-character form\<close>

lemma CSS3_keys_lower:
  "list_all (\<lambda>(k, v). list_all (\<lambda>c. 0x61 \<le> c \<and> c \<le> 0x7A) k) CSS3_NAMES_TO_HEX"
  unfolding CSS3_NAMES_TO_HEX_def str_def by simp

lemma CSS3_get_lower:
  assumes "dict_get CSS3_NAMES_TO_HEX k = Some v"
  shows "list_all (\<lambda>c. 0x61 \<le> c \<and> c \<le> 0x7A) k"
proof -
  from assms have "(k, v) \<in> set CSS3_NAMES_TO_HEX"
    unfolding dict_get_def by (rule map_of_SomeD)
  with CSS3_keys_lower show ?thesis
    by (auto simp: list_all_iff)
qed

lemma length4E:
  assumes "length xs = 4"
  obtains a b c d where "xs = [a, b, c, d]"
  using assms by (auto simp: length_Suc_conv eval_nat_numeral)

lemma strip_Nil: "strip [] = []"
  by (simp add: strip_def)

text \<open>
  C7: when the stripped input is not \<open>transparent\<close> and not a CSS3 keyword, is four characters
  long, starts with \<open>#\<close> and ends in three ASCII hex digits, \<open>html5_parse_legacy_color\<close>
  returns the values of the three digits, each multiplied by 17; \<open>#abc\<close> gives
  \<open>(170, 187, 204)\<close>.
\<close>

theorem html5_parse_legacy_color_four:
  assumes "lower (strip input) \<noteq> str ''transparent''"
    and "dict_get CSS3_NAMES_TO_HEX (lower (strip input)) = None"
    and "length (strip input) = 4"
    and "strip input ! 0 = 0x23"
    and "list_all is_hexdigit (drop 1 (strip input))"
  shows "html5_parse_legacy_color input =
      Inr (digit_value (strip input ! 1) * 17, digit_value (strip input ! 2) * 17,
           digit_value (strip input ! 3) * 17)"
proof -
  from assms(3) obtain a b c d where s: "strip input = [a, b, c, d]"
    by (rule length4E)
  have ne: "input \<noteq> []"
    using s strip_Nil by auto
  show ?thesis
    using assms ne unfolding html5_parse_legacy_color_def s
    by (simp add: Let_def startswith_def str_def index_def and_then_def int_16_one)
qed

theorem html5_parse_legacy_color_four_witness:
  "lower (strip (str ''#abc'')) \<noteq> str ''transparent''
   \<and> dict_get CSS3_NAMES_TO_HEX (lower (strip (str ''#abc''))) = None
   \<and> length (strip (str ''#abc'')) = 4
   \<and> strip (str ''#abc'') ! 0 = 0x23
   \<and> list_all is_hexdigit (drop 1 (strip (str ''#abc'')))
   \<and> html5_parse_legacy_color (str ''#abc'') = Inr (170, 187, 204)"
proof -
  have s: "strip (str ''#abc'') = [0x23, 0x61, 0x62, 0x63]"
    by (simp add: strip_def str_def isspace_def)
  have l: "lower [0x23, 0x61, 0x62, 0x63] = [0x23, 0x61, 0x62, 0x63]"
    by (simp add: lower_def lower_char_def)
  have k: "dict_get CSS3_NAMES_TO_HEX [0x23, 0x61, 0x62, 0x63] = None"
  proof (cases "dict_get CSS3_NAMES_TO_HEX [0x23, 0x61, 0x62, 0x63]")
    case None
    then show ?thesis .
  next
    case (Some v)
    then have "list_all (\<lambda>c. 0x61 \<le> c \<and> c \<le> 0x7A) [0x23, 0x61, 0x62, 0x63::nat]"
      by (rule CSS3_get_lower)
    then show ?thesis by simp
  qed
  have h: "lower (strip (str ''#abc'')) \<noteq> str ''transparent''
     \<and> dict_get CSS3_NAMES_TO_HEX (lower (strip (str ''#abc''))) = None
     \<and> length (strip (str ''#abc'')) = 4
     \<and> strip (str ''#abc'') ! 0 = 0x23
     \<and> list_all is_hexdigit (drop 1 (strip (str ''#abc'')))"
    unfolding s l using k by (simp add: str_def is_hexdigit_iff)
  moreover have "html5_parse_legacy_color (str ''#abc'') =
      Inr (digit_value (strip (str ''#abc'') ! 1) * 17, digit_value (strip (str ''#abc'') ! 2) * 17,
           digit_value (strip (str ''#abc'') ! 3) * 17)"
    using h by (intro html5_parse_legacy_color_four) simp_all
  ultimately show ?thesis
    by (simp add: s digit_value_def)
qed

section \<open>The legacy color parser: trimming leading zeros\<close>

lemma leading_zeros_Cons:
  "leading_zeros (c # s) = (if c = 0x30 then Suc (leading_zeros s) else 0)"
  by (simp add: leading_zeros_def)

lemma trim_loop_drop:
  assumes "length red = len" and "length green = len" and "length blue = len"
  shows "trim_loop len red green blue =
     (let k = min (len - 2) (min (leading_zeros red) (min (leading_zeros green) (leading_zeros blue)))
      in Inr (len - k, drop k red, drop k green, drop k blue))"
  using assms
proof (induction len red green blue rule: trim_loop.induct)
  case (1 len red green blue)
  show ?case
  proof (cases "len > 2")
    case False
    then show ?thesis by (subst trim_loop.simps) (simp add: Let_def)
  next
    case True
    with "1.prems" obtain r rs g gs b bs
      where red: "red = r # rs" and green: "green = g # gs" and blue: "blue = b # bs"
      by (cases red; cases green; cases blue) auto
    show ?thesis
    proof (cases "r = 0x30 \<and> g = 0x30 \<and> b = 0x30")
      case False
      then have "min (leading_zeros red) (min (leading_zeros green) (leading_zeros blue)) = 0"
        by (auto simp: red green blue leading_zeros_Cons)
      then show ?thesis
        using True False
        by (subst trim_loop.simps) (auto simp: Let_def red green blue index_def and_then_def leading_zeros_Cons)
    next
      case zeros: True
      have ih: "trim_loop (len - 1) (drop 1 red) (drop 1 green) (drop 1 blue) =
         (let k = min (len - 1 - 2) (min (leading_zeros (drop 1 red))
                    (min (leading_zeros (drop 1 green)) (leading_zeros (drop 1 blue))))
          in Inr (len - 1 - k, drop k (drop 1 red), drop k (drop 1 green), drop k (drop 1 blue)))"
        using True zeros "1.prems"
        by (intro "1.IH") (auto simp: red green blue index_def)
      have step: "trim_loop len red green blue = trim_loop (len - 1) (drop 1 red) (drop 1 green) (drop 1 blue)"
        using True zeros
        by (subst trim_loop.simps) (simp add: red green blue index_def and_then_def)
      have l2: "len - 2 = Suc (len - 1 - 2)"
        using True by arith
      from zeros have r: "r = 0x30" and g: "g = 0x30" and b: "b = 0x30"
        by simp_all
      have k: "min (len - 2) (min (leading_zeros red) (min (leading_zeros green) (leading_zeros blue)))
          = Suc (min (len - 1 - 2) (min (leading_zeros rs) (min (leading_zeros gs) (leading_zeros bs))))"
        by (simp only: l2 red green blue r g b leading_zeros_Cons refl if_True min_Suc_Suc)
      show ?thesis
        unfolding step ih k
        using True by (simp add: Let_def red green blue)
    qed
  qed
qed

text \<open>
  C3: on three components of the common length \<open>len\<close>, the loop of step 14 removes the same
  number \<open>k\<close> of characters from the front of all three: \<open>k\<close> is the number of leading \<open>0\<close>
  characters that the three components share, cut off at \<open>len - 2\<close>. A component that does
  not start with \<open>0\<close> makes \<open>k = 0\<close>, whatever the other two start with.
\<close>

theorem trim_loop_joint:
  assumes "length red = len" and "length green = len" and "length blue = len"
  shows "trim_loop len red green blue =
     (let k = min (len - 2) (min (leading_zeros red) (min (leading_zeros green) (leading_zeros blue)))
      in Inr (len - k, drop k red, drop k green, drop k blue))"
  using assms by (rule trim_loop_drop)

theorem trim_loop_joint_witness:
  "length (str ''00a'') = 3 \<and> length (str ''00b'') = 3 \<and> length (str ''c00'') = 3
   \<and> length (str ''0c0'') = 3
   \<and> trim_loop 3 (str ''00a'') (str ''00b'') (str ''c00'')
       = Inr (3, str ''00a'', str ''00b'', str ''c00'')
   \<and> trim_loop 3 (str ''00a'') (str ''00b'') (str ''0c0'')
       = Inr (2, str ''0a'', str ''0b'', str ''c0'')"
  using trim_loop_joint [of "str ''00a''" 3 "str ''00b''" "str ''c00''"]
    trim_loop_joint [of "str ''00a''" 3 "str ''00b''" "str ''0c0''"]
  by (simp add: str_def leading_zeros_def)

section \<open>From a hexadecimal value to a triplet and back\<close>

lemma and_255: "(n::int) AND 0xFF = n mod 256"
proof -
  have "n AND mask 8 = n mod 2 ^ 8"
    by (simp only: take_bit_eq_mask [symmetric] take_bit_eq_mod)
  then show ?thesis by (simp add: mask_eq_exp_minus_1)
qed

lemma byte_div: "0 \<le> z \<Longrightarrow> z < 256 \<Longrightarrow> (k * 256 + z) div 256 = (k::int)"
  by (simp add: div_pos_pos_trivial)

lemma byte_mod: "0 \<le> z \<Longrightarrow> z < 256 \<Longrightarrow> (k * 256 + z) mod 256 = (z::int)"
  by (simp add: mod_pos_pos_trivial)

lemma split_bytes:
  assumes "0 \<le> x" "x < 256" "0 \<le> y" "y < 256" "0 \<le> z" "z < 256"
  shows "drop_bit 16 ((x * 256 + y) * 256 + z :: int) = x"
    and "drop_bit 8 ((x * 256 + y) * 256 + z :: int) AND 0xFF = y"
    and "((x * 256 + y) * 256 + z :: int) AND 0xFF = z"
proof -
  let ?n = "(x * 256 + y) * 256 + z"
  have d8: "drop_bit 8 ?n = x * 256 + y"
    using byte_div [OF assms(5,6), of "x * 256 + y"] by (simp only: drop_bit_eq_div) simp
  have "drop_bit 16 ?n = drop_bit 8 (drop_bit 8 ?n)"
    by simp
  also have "\<dots> = (x * 256 + y) div 256"
    unfolding d8 by (simp only: drop_bit_eq_div) simp
  also have "\<dots> = x"
    using assms by (rule_tac byte_div)
  finally show "drop_bit 16 ?n = x" .
  show "drop_bit 8 ?n AND 0xFF = y"
    unfolding d8 and_255 using assms by (rule_tac byte_mod)
  show "?n AND 0xFF = z"
    unfolding and_255 using assms by (rule_tac byte_mod)
qed

lemma lower_hexdigits: "list_all is_hexdigit s \<Longrightarrow> lower s = map lc s"
  by (induction s) (auto simp: lower_def lower_char_def lc_def is_hexdigit_iff)

lemma lc_hexdigit: "is_hexdigit c \<Longrightarrow> is_hexdigit (lc c)"
  by (auto simp: lc_def is_hexdigit_iff)

lemma digit_value_lc: "is_hexdigit c \<Longrightarrow> digit_value (lc c) = digit_value c"
  by (auto simp: lc_def is_hexdigit_iff digit_value_def)

lemma hex_digit_digit_value: "is_hexdigit c \<Longrightarrow> hex_digit (nat (digit_value c)) = lc c"
  by (auto simp: lc_def is_hexdigit_iff digit_value_def hex_digit_def)

lemma format_02x_byte:
  assumes "0 \<le> a" "a < 16" "0 \<le> b" "b < 16"
  shows "format_02x (16 * a + b) = [hex_digit (nat a), hex_digit (nat b)]"
proof -
  have n: "nat \<bar>16 * a + b\<bar> = 16 * nat a + nat b"
    using assms by (simp add: nat_add_distrib nat_mult_distrib)
  have nn: "\<not> 16 * a + b < 0"
    using assms by simp
  have fx: "format_x (16 * nat a + nat b) =
      (if a = 0 then [hex_digit (nat b)] else [hex_digit (nat a), hex_digit (nat b)])"
  proof (cases "a = 0")
    case True
    then show ?thesis using assms by (subst format_x.simps) (simp add: nat_less_iff)
  next
    case False
    then have big: "\<not> 16 * nat a + nat b < 16" using assms by simp
    have bl: "nat b < 16"
      using assms by (simp add: nat_less_iff)
    have d: "(16 * nat a + nat b) div 16 = nat a" "nat b mod 16 = nat b"
      using bl by auto
    have small: "format_x (nat a) = [hex_digit (nat a)]"
      using assms by (subst format_x.simps) (simp add: nat_less_iff)
    show ?thesis
      using False big by (subst format_x.simps) (simp add: d small)
  qed
  show ?thesis
    unfolding format_02x_def Let_def n fx
    using nn by (simp add: hex_digit_def)
qed

lemma format_02x_digits:
  assumes "is_hexdigit a" "is_hexdigit b"
  shows "format_02x (16 * digit_value a + digit_value b) = [lc a, lc b]"
  using assms digit_value_range [of a] digit_value_range [of b]
  by (simp add: format_02x_byte hex_digit_digit_value)

lemma re_hex_class_iff: "re_hex_class c \<longleftrightarrow> is_hexdigit c"
  by (auto simp: re_hex_class_def is_hexdigit_iff)

text \<open>
  C4, as the code has it: for a \<open>#\<close> followed by six hex digits in any letter case,
  \<open>rgb_to_hex (hex_to_rgb h)\<close> is \<open>h\<close> in lower case. It is \<open>h\<close> itself when \<open>h\<close> has no
  upper-case letter.
\<close>

theorem rgb_to_hex_hex_to_rgb:
  assumes "length h = 7" and "h ! 0 = 0x23" and "list_all is_hexdigit (drop 1 h)"
  shows "and_then (hex_to_rgb h) (\<lambda>t. Inr (rgb_to_hex t)) = Inr (lower h)"
proof -
  from assms(1) obtain x a b c d e f where h: "h = [x, a, b, c, d, e, f]"
    by (rule length7E)
  from assms(2) have x: "x = 0x23" by (simp add: h)
  from assms(3) have hd: "is_hexdigit a" "is_hexdigit b" "is_hexdigit c" "is_hexdigit d"
      "is_hexdigit e" "is_hexdigit f"
    by (simp_all add: h)
  have nl: "f \<noteq> 0x0A" using hd(6) by (auto simp: is_hexdigit_iff)
  have m: "HEX_COLOR_RE_match h = Some [a, b, c, d, e, f]"
    using hd nl by (simp add: HEX_COLOR_RE_match_def h x re_hex_class_iff)
  have lo: "lower [a, b, c, d, e, f] = [lc a, lc b, lc c, lc d, lc e, lc f]"
    using hd by (simp add: lower_hexdigits)
  have n: "normalize_hex h = Inr [0x23, lc a, lc b, lc c, lc d, lc e, lc f]"
    by (simp add: normalize_hex_def m lo str_def)
  let ?r = "16 * digit_value a + digit_value b"
  let ?g = "16 * digit_value c + digit_value d"
  let ?b = "16 * digit_value e + digit_value f"
  have i: "int_16 [lc a, lc b, lc c, lc d, lc e, lc f] = Inr ((?r * 256 + ?g) * 256 + ?b)"
    using hd by (simp add: int_16_def lc_hexdigit digit_value_lc)
  have rng: "0 \<le> ?r" "?r < 256" "0 \<le> ?g" "?g < 256" "0 \<le> ?b" "?b < 256"
    using hd digit_value_range [of a] digit_value_range [of b] digit_value_range [of c]
      digit_value_range [of d] digit_value_range [of e] digit_value_range [of f]
    by auto
  have rgb: "hex_to_rgb h = Inr (?r, ?g, ?b)"
    unfolding hex_to_rgb_def n using split_bytes [OF rng] by (simp add: i)
  have norm: "normalize_integer_triplet (?r, ?g, ?b) = (?r, ?g, ?b)"
    using rng by (simp add: normalize_integer_triplet_def normalize_integer_rgb_def)
  have hex: "rgb_to_hex (?r, ?g, ?b) = [0x23, lc a, lc b, lc c, lc d, lc e, lc f]"
    unfolding rgb_to_hex_def norm using hd by (simp add: format_02x_digits str_def)
  have lh: "lower h = [0x23, lc a, lc b, lc c, lc d, lc e, lc f]"
    using lo by (simp add: h x lower_def lower_char_def)
  show ?thesis
    by (simp add: rgb and_then_def hex lh)
qed

theorem rgb_to_hex_hex_to_rgb_witness:
  "length (str ''#a1b2c3'') = 7 \<and> str ''#a1b2c3'' ! 0 = 0x23
   \<and> list_all is_hexdigit (drop 1 (str ''#a1b2c3''))
   \<and> and_then (hex_to_rgb (str ''#a1b2c3'')) (\<lambda>t. Inr (rgb_to_hex t)) = Inr (str ''#a1b2c3'')"
proof -
  have h: "length (str ''#a1b2c3'') = 7 \<and> str ''#a1b2c3'' ! 0 = 0x23
      \<and> list_all is_hexdigit (drop 1 (str ''#a1b2c3''))"
    by (simp add: str_def is_hexdigit_iff)
  moreover have "lower (str ''#a1b2c3'') = str ''#a1b2c3''"
    by (simp add: str_def lower_def lower_char_def)
  ultimately show ?thesis
    using rgb_to_hex_hex_to_rgb [of "str ''#a1b2c3''"] by simp
qed

text \<open>
  The claim as it is stated, for any letter case, fails on \<open>#AABBCC\<close>: the round trip
  gives \<open>#aabbcc\<close>.
\<close>

theorem rgb_to_hex_hex_to_rgb_counterexample:
  "and_then (hex_to_rgb (str ''#AABBCC'')) (\<lambda>t. Inr (rgb_to_hex t)) \<noteq> Inr (str ''#AABBCC'')"
proof -
  have h: "length (str ''#AABBCC'') = 7 \<and> str ''#AABBCC'' ! 0 = 0x23
      \<and> list_all is_hexdigit (drop 1 (str ''#AABBCC''))"
    by (simp add: str_def is_hexdigit_iff)
  then have "and_then (hex_to_rgb (str ''#AABBCC'')) (\<lambda>t. Inr (rgb_to_hex t)) = Inr (lower (str ''#AABBCC''))"
    by (intro rgb_to_hex_hex_to_rgb) simp_all
  then show ?thesis
    by (simp add: str_def lower_def lower_char_def)
qed

section \<open>The reverse table of CSS3\<close>

lemma fold_dict_set_get:
  "dict_get (fold (\<lambda>(k, v) acc. dict_set acc k v) d acc) h
     = fold (\<lambda>(k, v) r. if k = h then Some v else r) d (dict_get acc h)"
  by (induction d arbitrary: acc) (auto simp: dict_get_def dict_set_def update_conv')

lemma reversedict_get:
  "dict_get (reversedict d) h = fold (\<lambda>(k, v) r. if v = h then Some k else r) d None"
proof -
  have "dict_get (fold (\<lambda>(key, val) acc. dict_set acc val key) d acc) h
     = fold (\<lambda>(k, v) r. if v = h then Some k else r) d (dict_get acc h)" for acc
    by (induction d arbitrary: acc) (auto simp: dict_get_def dict_set_def update_conv')
  from this [of "[]"] show ?thesis
    by (simp add: reversedict_def dict_get_def)
qed

lemma CSS3_HEX_TO_NAMES_get:
  "dict_get CSS3_HEX_TO_NAMES h
     = fold (\<lambda>(k, v) r. if k = h then Some v else r) CSS3_PINNED
         (fold (\<lambda>(k, v) r. if v = h then Some k else r) CSS3_NAMES_TO_HEX None)"
  by (simp only: CSS3_HEX_TO_NAMES_def fold_dict_set_get reversedict_get)

lemma dispatch_CSS3:
  "dict_get [(CSS2, CSS2_HEX_TO_NAMES), (CSS21, CSS21_HEX_TO_NAMES), (CSS3, CSS3_HEX_TO_NAMES),
             (HTML4, HTML4_HEX_TO_NAMES), (COLOR_HEXA, COLOR_HEXA_HEX_TO_NAMES)] CSS3
     = Some CSS3_HEX_TO_NAMES"
  by (simp add: dict_get_def CSS2_def CSS21_def CSS3_def str_def)

lemma CSS3_supported: "CSS3 \<in> set SUPPORTED_SPECIFICATIONS"
  by (simp add: SUPPORTED_SPECIFICATIONS_def)

lemma hex_to_name_CSS3:
  assumes "normalize_hex h = Inr h'" and "dict_get CSS3_HEX_TO_NAMES h' = Some n"
  shows "hex_to_name h CSS3 = Inr n"
  by (simp add: hex_to_name_def CSS3_supported assms dispatch_CSS3)

lemmas normalize_hex_eval =
  normalize_hex_def HEX_COLOR_RE_match_def re_hex_class_def lower_def lower_char_def str_def

lemma hex_to_name_CSS3_a9a9a9: "hex_to_name (str ''#a9a9a9'') CSS3 = Inr (str ''darkgray'')"
proof (rule hex_to_name_CSS3)
  show "normalize_hex (str ''#a9a9a9'') = Inr (str ''#a9a9a9'')"
    by (simp add: normalize_hex_eval)
  show "dict_get CSS3_HEX_TO_NAMES (str ''#a9a9a9'') = Some (str ''darkgray'')"
    unfolding CSS3_HEX_TO_NAMES_get CSS3_PINNED_def CSS3_NAMES_TO_HEX_def str_def by simp
qed

lemma hex_to_name_CSS3_2f4f4f: "hex_to_name (str ''#2f4f4f'') CSS3 = Inr (str ''darkslategray'')"
proof (rule hex_to_name_CSS3)
  show "normalize_hex (str ''#2f4f4f'') = Inr (str ''#2f4f4f'')"
    by (simp add: normalize_hex_eval)
  show "dict_get CSS3_HEX_TO_NAMES (str ''#2f4f4f'') = Some (str ''darkslategray'')"
    unfolding CSS3_HEX_TO_NAMES_get CSS3_PINNED_def CSS3_NAMES_TO_HEX_def str_def by simp
qed

lemma hex_to_name_CSS3_696969: "hex_to_name (str ''#696969'') CSS3 = Inr (str ''dimgray'')"
proof (rule hex_to_name_CSS3)
  show "normalize_hex (str ''#696969'') = Inr (str ''#696969'')"
    by (simp add: normalize_hex_eval)
  show "dict_get CSS3_HEX_TO_NAMES (str ''#696969'') = Some (str ''dimgray'')"
    unfolding CSS3_HEX_TO_NAMES_get CSS3_PINNED_def CSS3_NAMES_TO_HEX_def str_def by simp
qed

lemma hex_to_name_CSS3_808080: "hex_to_name (str ''#808080'') CSS3 = Inr (str ''gray'')"
proof (rule hex_to_name_CSS3)
  show "normalize_hex (str ''#808080'') = Inr (str ''#808080'')"
    by (simp add: normalize_hex_eval)
  show "dict_get CSS3_HEX_TO_NAMES (str ''#808080'') = Some (str ''gray'')"
    unfolding CSS3_HEX_TO_NAMES_get CSS3_PINNED_def CSS3_NAMES_TO_HEX_def str_def by simp
qed

lemma hex_to_name_CSS3_d3d3d3: "hex_to_name (str ''#d3d3d3'') CSS3 = Inr (str ''lightgray'')"
proof (rule hex_to_name_CSS3)
  show "normalize_hex (str ''#d3d3d3'') = Inr (str ''#d3d3d3'')"
    by (simp add: normalize_hex_eval)
  show "dict_get CSS3_HEX_TO_NAMES (str ''#d3d3d3'') = Some (str ''lightgray'')"
    unfolding CSS3_HEX_TO_NAMES_get CSS3_PINNED_def CSS3_NAMES_TO_HEX_def str_def by simp
qed

lemma hex_to_name_CSS3_778899: "hex_to_name (str ''#778899'') CSS3 = Inr (str ''lightslategray'')"
proof (rule hex_to_name_CSS3)
  show "normalize_hex (str ''#778899'') = Inr (str ''#778899'')"
    by (simp add: normalize_hex_eval)
  show "dict_get CSS3_HEX_TO_NAMES (str ''#778899'') = Some (str ''lightslategray'')"
    unfolding CSS3_HEX_TO_NAMES_get CSS3_PINNED_def CSS3_NAMES_TO_HEX_def str_def by simp
qed

lemma hex_to_name_CSS3_708090: "hex_to_name (str ''#708090'') CSS3 = Inr (str ''slategray'')"
proof (rule hex_to_name_CSS3)
  show "normalize_hex (str ''#708090'') = Inr (str ''#708090'')"
    by (simp add: normalize_hex_eval)
  show "dict_get CSS3_HEX_TO_NAMES (str ''#708090'') = Some (str ''slategray'')"
    unfolding CSS3_HEX_TO_NAMES_get CSS3_PINNED_def CSS3_NAMES_TO_HEX_def str_def by simp
qed

lemma hex_to_name_CSS3_00ffff: "hex_to_name (str ''#00ffff'') CSS3 = Inr (str ''cyan'')"
proof (rule hex_to_name_CSS3)
  show "normalize_hex (str ''#00ffff'') = Inr (str ''#00ffff'')"
    by (simp add: normalize_hex_eval)
  show "dict_get CSS3_HEX_TO_NAMES (str ''#00ffff'') = Some (str ''cyan'')"
    unfolding CSS3_HEX_TO_NAMES_get CSS3_PINNED_def CSS3_NAMES_TO_HEX_def str_def by simp
qed

lemma hex_to_name_CSS3_ff00ff: "hex_to_name (str ''#ff00ff'') CSS3 = Inr (str ''magenta'')"
proof (rule hex_to_name_CSS3)
  show "normalize_hex (str ''#ff00ff'') = Inr (str ''#ff00ff'')"
    by (simp add: normalize_hex_eval)
  show "dict_get CSS3_HEX_TO_NAMES (str ''#ff00ff'') = Some (str ''magenta'')"
    unfolding CSS3_HEX_TO_NAMES_get CSS3_PINNED_def CSS3_NAMES_TO_HEX_def str_def by simp
qed

lemma CSS3_get_aqua: "dict_get CSS3_NAMES_TO_HEX (str ''aqua'') = Some (str ''#00ffff'')"
  unfolding dict_get_def CSS3_NAMES_TO_HEX_def str_def by simp

lemma CSS3_get_cyan: "dict_get CSS3_NAMES_TO_HEX (str ''cyan'') = Some (str ''#00ffff'')"
  unfolding dict_get_def CSS3_NAMES_TO_HEX_def str_def by simp

lemma CSS3_get_fuchsia: "dict_get CSS3_NAMES_TO_HEX (str ''fuchsia'') = Some (str ''#ff00ff'')"
  unfolding dict_get_def CSS3_NAMES_TO_HEX_def str_def by simp

lemma CSS3_get_magenta: "dict_get CSS3_NAMES_TO_HEX (str ''magenta'') = Some (str ''#ff00ff'')"
  unfolding dict_get_def CSS3_NAMES_TO_HEX_def str_def by simp

lemma CSS3_PINNED_keys:
  "str ''#00ffff'' \<notin> fst ` set CSS3_PINNED" "str ''#ff00ff'' \<notin> fst ` set CSS3_PINNED"
  unfolding CSS3_PINNED_def str_def by simp_all

lemma reversed_order_aqua:
  "dict_get (reversedict (rev CSS3_NAMES_TO_HEX)) (str ''#00ffff'') = Some (str ''aqua'')"
  unfolding reversedict_get CSS3_NAMES_TO_HEX_def str_def by simp

lemma reversed_order_fuchsia:
  "dict_get (reversedict (rev CSS3_NAMES_TO_HEX)) (str ''#ff00ff'') = Some (str ''fuchsia'')"
  unfolding reversedict_get CSS3_NAMES_TO_HEX_def str_def by simp

text \<open>
  C9: every hex value that several CSS3 names share should resolve to an explicitly pinned
  name. The seven gray values are pinned and resolve to the \<open>gray\<close> spelling. The values
  \<open>#00ffff\<close> (\<open>aqua\<close> and \<open>cyan\<close>) and \<open>#ff00ff\<close> (\<open>fuchsia\<close> and \<open>magenta\<close>) are shared
  too and are not pinned: the reverse table gives the name that comes last in the order
  of the table, \<open>cyan\<close> and \<open>magenta\<close>, and it gives \<open>aqua\<close> and \<open>fuchsia\<close> when the same
  entries are inserted in the opposite order.
\<close>

theorem CSS3_HEX_TO_NAMES_pinned_and_unpinned:
  "hex_to_name (str ''#a9a9a9'') CSS3 = Inr (str ''darkgray'')
   \<and> hex_to_name (str ''#2f4f4f'') CSS3 = Inr (str ''darkslategray'')
   \<and> hex_to_name (str ''#696969'') CSS3 = Inr (str ''dimgray'')
   \<and> hex_to_name (str ''#808080'') CSS3 = Inr (str ''gray'')
   \<and> hex_to_name (str ''#d3d3d3'') CSS3 = Inr (str ''lightgray'')
   \<and> hex_to_name (str ''#778899'') CSS3 = Inr (str ''lightslategray'')
   \<and> hex_to_name (str ''#708090'') CSS3 = Inr (str ''slategray'')
   \<and> dict_get CSS3_NAMES_TO_HEX (str ''aqua'') = Some (str ''#00ffff'')
   \<and> dict_get CSS3_NAMES_TO_HEX (str ''cyan'') = Some (str ''#00ffff'')
   \<and> str ''#00ffff'' \<notin> fst ` set CSS3_PINNED
   \<and> hex_to_name (str ''#00ffff'') CSS3 = Inr (str ''cyan'')
   \<and> dict_get (reversedict (rev CSS3_NAMES_TO_HEX)) (str ''#00ffff'') = Some (str ''aqua'')
   \<and> dict_get CSS3_NAMES_TO_HEX (str ''fuchsia'') = Some (str ''#ff00ff'')
   \<and> dict_get CSS3_NAMES_TO_HEX (str ''magenta'') = Some (str ''#ff00ff'')
   \<and> str ''#ff00ff'' \<notin> fst ` set CSS3_PINNED
   \<and> hex_to_name (str ''#ff00ff'') CSS3 = Inr (str ''magenta'')
   \<and> dict_get (reversedict (rev CSS3_NAMES_TO_HEX)) (str ''#ff00ff'') = Some (str ''fuchsia'')"
  by (intro conjI hex_to_name_CSS3_a9a9a9 hex_to_name_CSS3_2f4f4f hex_to_name_CSS3_696969
      hex_to_name_CSS3_808080 hex_to_name_CSS3_d3d3d3 hex_to_name_CSS3_778899
      hex_to_name_CSS3_708090 hex_to_name_CSS3_00ffff hex_to_name_CSS3_ff00ff
      CSS3_get_aqua CSS3_get_cyan CSS3_get_fuchsia CSS3_get_magenta CSS3_PINNED_keys
      reversed_order_aqua reversed_order_fuchsia)

section \<open>The legacy color parser: failures and the range of the result\<close>

lemma legacy_unfold:
  "html5_parse_legacy_color input0 =
     (if input0 = [] then Inl EmptyInput
      else if lower (strip input0) = str ''transparent'' then Inl TransparentNotAllowed
      else case dict_get CSS3_NAMES_TO_HEX (lower (strip input0)) of
             Some keyword_hex \<Rightarrow> html5_parse_simple_color keyword_hex
           | None \<Rightarrow>
               if length (strip input0) = 4 \<and> startswith (strip input0) (str ''#'')
                  \<and> list_all is_hexdigit (drop 1 (strip input0))
               then
                 and_then (index (strip input0) 1) (\<lambda>c1.
                 and_then (int_16 [c1]) (\<lambda>r.
                 and_then (index (strip input0) 2) (\<lambda>c2.
                 and_then (int_16 [c2]) (\<lambda>g.
                 and_then (index (strip input0) 3) (\<lambda>c3.
                 and_then (int_16 [c3]) (\<lambda>b.
                 Inr (r * 17, g * 17, b * 17)))))))
               else legacy_tail (legacy_pre (strip input0)))"
  unfolding html5_parse_legacy_color_def legacy_tail_def legacy_pre_def Let_def
  by (rule refl)

lemma is_hexdigit_zero: "is_hexdigit 0x30"
  by (simp add: is_hexdigit_iff)

lemma pad_loop_props:
  "list_all is_hexdigit s \<Longrightarrow>
     list_all is_hexdigit (pad_loop s) \<and> 0 < length (pad_loop s) \<and> length (pad_loop s) mod 3 = 0"
proof (induction s rule: pad_loop.induct)
  case (1 input)
  show ?case
  proof (cases "length input = 0 \<or> length input mod 3 \<noteq> 0")
    case True
    have "list_all is_hexdigit (input @ str ''0'')"
      using "1.prems" by (simp add: str_def is_hexdigit_zero)
    with True "1.IH" show ?thesis
      by (subst (1 2 3) pad_loop.simps) simp
  next
    case False
    with "1.prems" show ?thesis
      by (subst (1 2 3) pad_loop.simps) auto
  qed
qed

lemma replace_non_hex:
  "list_all is_hexdigit (map (\<lambda>c. if is_hexdigit c then c else 0x30) xs)"
  by (induction xs) (simp_all add: is_hexdigit_zero)

lemma legacy_pre_props:
  "list_all is_hexdigit (legacy_pre s) \<and> 0 < length (legacy_pre s) \<and> length (legacy_pre s) mod 3 = 0"
  unfolding legacy_pre_def Let_def
  by (rule pad_loop_props) (rule replace_non_hex)

lemma int_16_byte:
  assumes "c \<noteq> []" and "length c \<le> 2" and "list_all is_hexdigit c"
  shows "\<exists>v. int_16 c = Inr v \<and> 0 \<le> v \<and> v \<le> 255"
proof -
  from assms(1,2) consider a where "c = [a]" | a b where "c = [a, b]"
    by (cases c; cases "tl c") auto
  then show ?thesis
  proof cases
    case 1
    with assms(3) digit_value_range [of a] show ?thesis
      by (simp add: int_16_one)
  next
    case 2
    with assms(3) digit_value_range [of a] digit_value_range [of b] show ?thesis
      by (simp add: int_16_two)
  qed
qed

lemma list_all_take: "list_all P xs \<Longrightarrow> list_all P (take n xs)"
  by (auto simp: list_all_iff dest: in_set_takeD)

lemma list_all_drop: "list_all P xs \<Longrightarrow> list_all P (drop n xs)"
  by (auto simp: list_all_iff dest: in_set_dropD)

lemma legacy_tail_ok:
  assumes hex: "list_all is_hexdigit inp" and pos: "0 < length inp" and m3: "length inp mod 3 = 0"
  shows "\<exists>r g b. legacy_tail inp = Inr (r, g, b)
           \<and> 0 \<le> r \<and> r \<le> 255 \<and> 0 \<le> g \<and> g \<le> 255 \<and> 0 \<le> b \<and> b \<le> 255"
proof -
  define n where "n = length inp div 3"
  have len: "length inp = 3 * n"
    using m3 unfolding n_def by arith
  have n1: "1 \<le> n"
    using pos len by arith
  define m where "m = (if n > 8 then 8 else n)"
  define red where "red = (if n > 8 then drop (n - 8) (take n inp) else take n inp)"
  define green where
    "green = (if n > 8 then drop (n - 8) (slice n (n * 2) inp) else slice n (n * 2) inp)"
  define blue where
    "blue = (if n > 8 then drop (n - 8) (drop (n * 2) inp) else drop (n * 2) inp)"
  have lens: "length red = m" "length green = m" "length blue = m"
    by (auto simp: red_def green_def blue_def m_def slice_def len)
  have hx: "list_all is_hexdigit red" "list_all is_hexdigit green" "list_all is_hexdigit blue"
    using hex by (auto simp: red_def green_def blue_def slice_def intro!: list_all_take list_all_drop)
  have m1: "1 \<le> m"
    using n1 by (simp add: m_def)
  define k where
    "k = min (m - 2) (min (leading_zeros red) (min (leading_zeros green) (leading_zeros blue)))"
  have t: "trim_loop m red green blue = Inr (m - k, drop k red, drop k green, drop k blue)"
    using trim_loop_drop [OF lens] by (simp add: Let_def k_def)
  have km: "k \<le> m - 2"
    by (simp add: k_def)
  define fr where "fr = (if m - k > 2 then take 2 (drop k red) else drop k red)"
  define fg where "fg = (if m - k > 2 then take 2 (drop k green) else drop k green)"
  define fb where "fb = (if m - k > 2 then take 2 (drop k blue) else drop k blue)"
  have ne: "fr \<noteq> []" "fg \<noteq> []" "fb \<noteq> []"
    using lens m1 km by (auto simp: fr_def fg_def fb_def)
  have le2: "length fr \<le> 2" "length fg \<le> 2" "length fb \<le> 2"
    using lens by (auto simp: fr_def fg_def fb_def)
  have fh: "list_all is_hexdigit fr" "list_all is_hexdigit fg" "list_all is_hexdigit fb"
    using hx by (auto simp: fr_def fg_def fb_def intro!: list_all_take list_all_drop)
  from int_16_byte [OF ne(1) le2(1) fh(1)] obtain r
    where r: "int_16 fr = Inr r" "0 \<le> r" "r \<le> 255" by blast
  from int_16_byte [OF ne(2) le2(2) fh(2)] obtain g
    where g: "int_16 fg = Inr g" "0 \<le> g" "g \<le> 255" by blast
  from int_16_byte [OF ne(3) le2(3) fh(3)] obtain b
    where b: "int_16 fb = Inr b" "0 \<le> b" "b \<le> 255" by blast
  have "legacy_tail inp =
      and_then (trim_loop m red green blue) (\<lambda>(len, red, green, blue).
        let (red, green, blue) =
              (if len > 2 then (take 2 red, take 2 green, take 2 blue) else (red, green, blue))
        in and_then (int_16 red) (\<lambda>r. and_then (int_16 green) (\<lambda>g.
           and_then (int_16 blue) (\<lambda>b. Inr (r, g, b)))))"
    by (simp add: legacy_tail_def Let_def n_def m_def red_def green_def blue_def)
  also have "\<dots> = and_then (int_16 fr) (\<lambda>r. and_then (int_16 fg) (\<lambda>g.
           and_then (int_16 fb) (\<lambda>b. Inr (r, g, b))))"
    unfolding t by (simp add: and_then_def fr_def fg_def fb_def)
  also have "\<dots> = Inr (r, g, b)"
    by (simp add: r g b and_then_def)
  finally show ?thesis
    using r g b by blast
qed


lemma CSS3_values_simple:
  "list_all (\<lambda>(k, v). length v = 7 \<and> v ! 0 = 0x23 \<and> list_all is_hexdigit (drop 1 v))
     CSS3_NAMES_TO_HEX"
  unfolding CSS3_NAMES_TO_HEX_def str_def is_hexdigit_def hexdigits_def by simp

lemma html5_parse_simple_color_bytes:
  assumes "length v = 7" and "v ! 0 = 0x23" and "list_all is_hexdigit (drop 1 v)"
  shows "\<exists>r g b. html5_parse_simple_color v = Inr (r, g, b)
           \<and> 0 \<le> r \<and> r \<le> 255 \<and> 0 \<le> g \<and> g \<le> 255 \<and> 0 \<le> b \<and> b \<le> 255"
proof -
  from assms(1) obtain x a b c d e f where v: "v = [x, a, b, c, d, e, f]"
    by (rule length7E)
  from assms(3) have h: "is_hexdigit a" "is_hexdigit b" "is_hexdigit c" "is_hexdigit d"
      "is_hexdigit e" "is_hexdigit f"
    by (simp_all add: v)
  have "html5_parse_simple_color v =
      Inr (16 * digit_value a + digit_value b, 16 * digit_value c + digit_value d,
           16 * digit_value e + digit_value f)"
    using assms(2) h
    by (simp add: v html5_parse_simple_color_def startswith_def str_def slice_def and_then_def
        int_16_two)
  then show ?thesis
    using digit_value_range [OF h(1)] digit_value_range [OF h(2)] digit_value_range [OF h(3)]
      digit_value_range [OF h(4)] digit_value_range [OF h(5)] digit_value_range [OF h(6)]
    by simp
qed

lemma keyword_bytes:
  assumes "dict_get CSS3_NAMES_TO_HEX k = Some v"
  shows "\<exists>r g b. html5_parse_simple_color v = Inr (r, g, b)
           \<and> 0 \<le> r \<and> r \<le> 255 \<and> 0 \<le> g \<and> g \<le> 255 \<and> 0 \<le> b \<and> b \<le> 255"
proof -
  from assms have "(k, v) \<in> set CSS3_NAMES_TO_HEX"
    unfolding dict_get_def by (rule map_of_SomeD)
  with CSS3_values_simple
  have "length v = 7 \<and> v ! 0 = 0x23 \<and> list_all is_hexdigit (drop 1 v)"
    by (auto simp: list_all_iff)
  then show ?thesis
    by (intro html5_parse_simple_color_bytes) simp_all
qed

lemma four_bytes:
  assumes "length s = 4" and "list_all is_hexdigit (drop 1 s)"
  shows "\<exists>r g b.
           and_then (index s 1) (\<lambda>c1. and_then (int_16 [c1]) (\<lambda>r.
           and_then (index s 2) (\<lambda>c2. and_then (int_16 [c2]) (\<lambda>g.
           and_then (index s 3) (\<lambda>c3. and_then (int_16 [c3]) (\<lambda>b.
           Inr (r * 17, g * 17, b * 17))))))) = Inr (r, g, b)
           \<and> 0 \<le> r \<and> r \<le> 255 \<and> 0 \<le> g \<and> g \<le> 255 \<and> 0 \<le> b \<and> b \<le> 255"
proof -
  from assms(1) obtain x a b c where s: "s = [x, a, b, c]"
    by (rule length4E)
  from assms(2) have h: "is_hexdigit a" "is_hexdigit b" "is_hexdigit c"
    by (simp_all add: s)
  show ?thesis
    using h digit_value_range [OF h(1)] digit_value_range [OF h(2)] digit_value_range [OF h(3)]
    by (simp add: s index_def and_then_def int_16_one)
qed

lemma legacy_bytes:
  assumes "input \<noteq> []" and "lower (strip input) \<noteq> str ''transparent''"
  shows "\<exists>r g b. html5_parse_legacy_color input = Inr (r, g, b)
           \<and> 0 \<le> r \<and> r \<le> 255 \<and> 0 \<le> g \<and> g \<le> 255 \<and> 0 \<le> b \<and> b \<le> 255"
proof (cases "dict_get CSS3_NAMES_TO_HEX (lower (strip input))")
  case (Some v)
  have "html5_parse_legacy_color input = html5_parse_simple_color v"
    by (simp only: legacy_unfold assms if_False Some option.case)
  with keyword_bytes [OF Some] show ?thesis
    by simp
next
  case None
  show ?thesis
  proof (cases "length (strip input) = 4 \<and> startswith (strip input) (str ''#'')
                  \<and> list_all is_hexdigit (drop 1 (strip input))")
    case True
    then have "length (strip input) = 4" "list_all is_hexdigit (drop 1 (strip input))"
      by simp_all
    from four_bytes [OF this] show ?thesis
      by (simp only: legacy_unfold assms if_False None option.case if_P [OF True])
  next
    case False
    have p: "list_all is_hexdigit (legacy_pre (strip input))"
      "0 < length (legacy_pre (strip input))" "length (legacy_pre (strip input)) mod 3 = 0"
      using legacy_pre_props [of "strip input"] by simp_all
    from legacy_tail_ok [OF p] show ?thesis
      by (simp only: legacy_unfold assms if_False None option.case if_not_P [OF False])
  qed
qed

lemma legacy_raises:
  "input = [] \<Longrightarrow> html5_parse_legacy_color input = Inl EmptyInput"
  "input \<noteq> [] \<Longrightarrow> lower (strip input) = str ''transparent''
     \<Longrightarrow> html5_parse_legacy_color input = Inl TransparentNotAllowed"
  by (simp_all only: legacy_unfold simp_thms if_True if_False)

text \<open>
  C2: \<open>html5_parse_legacy_color\<close> raises \<open>EmptyInput\<close> exactly on the empty string and
  \<open>TransparentNotAllowed\<close> exactly on a non-empty string whose stripped, lowered form is
  \<open>transparent\<close>; it raises nothing else, and on every other string it returns a triplet.
\<close>

theorem html5_parse_legacy_color_errors:
  "(html5_parse_legacy_color input = Inl EmptyInput \<longleftrightarrow> input = []) \<and>
   (html5_parse_legacy_color input = Inl TransparentNotAllowed
      \<longleftrightarrow> input \<noteq> [] \<and> lower (strip input) = str ''transparent'') \<and>
   ((\<exists>e. html5_parse_legacy_color input = Inl e)
      \<longleftrightarrow> input = [] \<or> lower (strip input) = str ''transparent'') \<and>
   (input \<noteq> [] \<and> lower (strip input) \<noteq> str ''transparent''
      \<longrightarrow> (\<exists>r g b. html5_parse_legacy_color input = Inr (r, g, b)))"
proof (cases "input = []")
  case True
  then show ?thesis
    using legacy_raises(1) [of input] by simp
next
  case ne: False
  show ?thesis
  proof (cases "lower (strip input) = str ''transparent''")
    case True
    then show ?thesis
      using ne legacy_raises(2) [of input] by simp
  next
    case False
    with ne legacy_bytes [of input] obtain r g b
      where "html5_parse_legacy_color input = Inr (r, g, b)" by auto
    with ne False show ?thesis
      by simp
  qed
qed

lemmas legacy_eval =
  legacy_unfold legacy_pre_def legacy_tail_def strip_def isspace_def lower_def lower_char_def
  str_def dict_get_def CSS3_NAMES_TO_HEX_def startswith_def is_hexdigit_iff pad_loop.simps
  trim_loop.simps index_def and_then_def slice_def int_16_def digit_value_def Let_def

lemma legacy_gibberish: "html5_parse_legacy_color (str ''gibberish'') = Inr (0, 190, 0)"
  by (simp add: legacy_eval)

lemma legacy_blank: "html5_parse_legacy_color (str ''   '') = Inr (0, 0, 0)"
  by (simp add: legacy_eval)

theorem html5_parse_legacy_color_errors_witness:
  "str ''gibberish'' \<noteq> [] \<and> lower (strip (str ''gibberish'')) \<noteq> str ''transparent''
   \<and> (\<exists>r g b. html5_parse_legacy_color (str ''gibberish'') = Inr (r, g, b))
   \<and> str ''   '' \<noteq> [] \<and> lower (strip (str ''   '')) \<noteq> str ''transparent''
   \<and> (\<exists>r g b. html5_parse_legacy_color (str ''   '') = Inr (r, g, b))
   \<and> html5_parse_legacy_color [] = Inl EmptyInput
   \<and> str '' TransParent '' \<noteq> []
   \<and> lower (strip (str '' TransParent '')) = str ''transparent''
   \<and> html5_parse_legacy_color (str '' TransParent '') = Inl TransparentNotAllowed"
proof -
  have a: "str ''gibberish'' \<noteq> [] \<and> lower (strip (str ''gibberish'')) \<noteq> str ''transparent''"
    by (simp add: strip_def isspace_def lower_def lower_char_def str_def)
  have b: "str ''   '' \<noteq> [] \<and> lower (strip (str ''   '')) \<noteq> str ''transparent''"
    by (simp add: strip_def isspace_def lower_def lower_char_def str_def)
  have c: "str '' TransParent '' \<noteq> []
      \<and> lower (strip (str '' TransParent '')) = str ''transparent''"
    by (simp add: strip_def isspace_def lower_def lower_char_def str_def)
  show ?thesis
    using a b c html5_parse_legacy_color_errors [of "str ''gibberish''"]
      html5_parse_legacy_color_errors [of "str ''   ''"]
      html5_parse_legacy_color_errors [of "[]"]
      html5_parse_legacy_color_errors [of "str '' TransParent ''"]
    by simp
qed


text \<open>
  C10: each component of a triplet that \<open>html5_parse_legacy_color\<close> returns lies between 0
  and 255.
\<close>

theorem html5_parse_legacy_color_range:
  assumes "html5_parse_legacy_color input = Inr (r, g, b)"
  shows "0 \<le> r \<and> r \<le> 255 \<and> 0 \<le> g \<and> g \<le> 255 \<and> 0 \<le> b \<and> b \<le> 255"
proof -
  have ne: "input \<noteq> []"
    using assms legacy_raises(1) [of input] by auto
  have "lower (strip input) \<noteq> str ''transparent''"
    using assms ne legacy_raises(2) [of input] by auto
  from legacy_bytes [OF ne this] show ?thesis
    using assms by auto
qed

theorem html5_parse_legacy_color_range_witness:
  "html5_parse_legacy_color (str ''gibberish'') = Inr (0, 190, 0)
   \<and> (0::int) \<le> 190 \<and> (190::int) \<le> 255"
  using html5_parse_legacy_color_range [OF legacy_gibberish] legacy_gibberish by simp


end
